theory Spec2Isabelle
  imports Complex_Main
begin

section \<open>Python strings\<close>

text \<open>
  A Python \<open>str\<close> is a sequence of Unicode code points and \<open>len\<close> counts code points,
  so a string is a list of natural numbers. \<open>str\<close> turns a literal into that form.
  Two of the program's messages start with a warning sign (U+26A0, U+FE0F).

  Whitespace is the full set \<open>str.isspace\<close>, \<open>str.strip\<close> and the pattern \<open>\s\<close> share.
  Case mapping and the word characters of \<open>\w\<close> are given for the code points below 256;
  a code point above is taken as caseless and as no word character, apart from the four
  letters that \<open>re.IGNORECASE\<close> identifies with i, s and k. None of the keywords the
  program looks for under \<open>lower()\<close> has a letter that a code point above 255 lowers to
  in a position where it could complete the keyword.
\<close>

type_synonym pystr = "nat list"

definition str :: "string \<Rightarrow> pystr" where
  "str s = map of_char s"

definition warning_sign :: pystr where
  "warning_sign = [9888, 65039]"

definition isspace :: "nat \<Rightarrow> bool" where
  "isspace c \<longleftrightarrow>
     (9 \<le> c \<and> c \<le> 13) \<or> (28 \<le> c \<and> c \<le> 32) \<or> c = 133 \<or> c = 160 \<or> c = 5760 \<or>
     (8192 \<le> c \<and> c \<le> 8202) \<or> c = 8232 \<or> c = 8233 \<or> c = 8239 \<or> c = 8287 \<or> c = 12288"

definition lower_cp :: "nat \<Rightarrow> nat" where
  "lower_cp c =
     (if (65 \<le> c \<and> c \<le> 90) \<or> (192 \<le> c \<and> c \<le> 222 \<and> c \<noteq> 215) then c + 32 else c)"

definition lower :: "pystr \<Rightarrow> pystr" where
  "lower s = map lower_cp s"

definition lstrip :: "pystr \<Rightarrow> pystr" where
  "lstrip s = dropWhile isspace s"

definition rstrip :: "pystr \<Rightarrow> pystr" where
  "rstrip s = rev (dropWhile isspace (rev s))"

definition strip :: "pystr \<Rightarrow> pystr" where
  "strip s = rstrip (lstrip s)"

definition startswith :: "pystr \<Rightarrow> pystr \<Rightarrow> bool" where
  "startswith s p \<longleftrightarrow> take (length p) s = p"

text \<open>\<open>py_in w s\<close> is Python's \<open>w in s\<close> on strings: \<open>w\<close> occurs in \<open>s\<close> as a substring.\<close>

fun py_in :: "pystr \<Rightarrow> pystr \<Rightarrow> bool" where
  "py_in w [] \<longleftrightarrow> w = []"
| "py_in w (c # cs) \<longleftrightarrow> startswith (c # cs) w \<or> py_in w cs"

text \<open>\<open>any(word in s for word in words)\<close>.\<close>

definition any_in :: "pystr list \<Rightarrow> pystr \<Rightarrow> bool" where
  "any_in ws s \<longleftrightarrow> list_ex (\<lambda>word. py_in word s) ws"

text \<open>\<open>sep.join(xs)\<close>.\<close>

fun join :: "pystr \<Rightarrow> pystr list \<Rightarrow> pystr" where
  "join sep [] = []"
| "join sep [x] = x"
| "join sep (x # y # ys) = x @ sep @ join sep (y # ys)"

section \<open>Values the libraries hand back\<close>

text \<open>
  A float is the rational it stands for, or one of the three special values that
  \<open>json.loads\<close> and \<open>float\<close> can produce. Rounding to the nearest double is monotone and
  fixes 0 and 1, so whether a value lies in the unit interval does not depend on it.
\<close>

datatype pyfloat = Finite rat | PosInf | NegInf | NaN

datatype json =
    JNull
  | JBool bool
  | JInt int
  | JFloat pyfloat
  | JStr pystr
  | JList "json list"
  | JDict "(pystr \<times> json) list"

text \<open>What \<open>json.loads\<close> does with a text: it raises \<open>JSONDecodeError\<close>, it raises
  something else (a \<open>RecursionError\<close> on deep nesting), or it returns the value.\<close>

datatype decoded = JSONDecodeError | OtherError | Decoded json

datatype net_error = Timeout | ConnectionError | RequestException | Unexpected

datatype 'a outcome = Raises net_error | Returns 'a

record post_response =
  status_code :: nat
  json_body :: "json option"

record get_response =
  get_status :: nat
  response_content :: "nat list"

record chat_request =
  authorization :: pystr
  req_model :: pystr
  req_messages :: "(pystr \<times> pystr) list"
  req_temperature :: rat
  req_max_tokens :: nat

text \<open>The network calls made so far, oldest first. It is the only state the functions
  below change; what they print is left out.\<close>

datatype call = Post chat_request | Get pystr

type_synonym world = "call list"

section \<open>The DOM of BeautifulSoup\<close>

datatype attr_value = Single pystr | Multi "pystr list"

text \<open>A tag with its name, attributes and contents, a string, or a string that
  \<open>get_text\<close> leaves out (a comment, a declaration).\<close>

datatype node =
    Tag pystr "(pystr \<times> attr_value) list" "node list"
  | NavigableString pystr
  | Comment pystr

text \<open>
  The libraries the program calls are parameters: the two \<open>requests\<close> calls (whose answer
  may depend on the calls made before), \<open>json.loads\<close>, \<open>float\<close> on a string (\<open>None\<close> is
  \<open>ValueError\<close>) and the HTML parser behind \<open>BeautifulSoup(bytes, 'html.parser')\<close>
  (\<open>None\<close> is an exception). Every theorem holds for all of them.
\<close>

record externals =
  requests_post :: "world \<Rightarrow> chat_request \<Rightarrow> post_response outcome"
  requests_get :: "world \<Rightarrow> pystr \<Rightarrow> get_response outcome"
  json_loads :: "pystr \<Rightarrow> decoded"
  float_of_str :: "pystr \<Rightarrow> pyfloat option"
  html_parser :: "nat list \<Rightarrow> node option"

section \<open>groq_chat\<close>

text \<open>
  Lines 66 to 74: the content of the first choice, stripped. Every other shape of the
  decoded body either fails one of the two membership tests or raises a \<open>TypeError\<close>,
  \<open>KeyError\<close> or \<open>AttributeError\<close> that the last handler turns into \<open>None\<close>.
\<close>

fun choice_content :: "json \<Rightarrow> pystr option" where
  "choice_content (JDict result) =
     (case map_of result (str ''choices'') of
        Some (JList (JDict choice # _)) \<Rightarrow>
          (case map_of choice (str ''message'') of
             Some (JDict message) \<Rightarrow>
               (case map_of message (str ''content'') of
                  Some (JStr content) \<Rightarrow> Some (strip content)
                | _ \<Rightarrow> None)
           | _ \<Rightarrow> None)
      | _ \<Rightarrow> None)"
| "choice_content _ = None"

definition groq_chat ::
  "externals \<Rightarrow> pystr option \<Rightarrow> (pystr \<times> pystr) list \<Rightarrow> pystr \<Rightarrow> rat \<Rightarrow> nat \<Rightarrow> world
     \<Rightarrow> pystr option \<times> world" where
  "groq_chat ext GROQ_API_KEY messages model temperature max_tokens w =
     (case GROQ_API_KEY of
        None \<Rightarrow> (None, w)
      | Some key \<Rightarrow>
          if key = [] then (None, w)
          else
            let data = \<lparr>authorization = key, req_model = model, req_messages = messages,
                        req_temperature = temperature, req_max_tokens = max_tokens\<rparr>;
                w' = w @ [Post data]
            in (case requests_post ext w data of
                  Raises e \<Rightarrow> (None, w')
                | Returns response \<Rightarrow>
                    if status_code response = 401 then (None, w')
                    else if status_code response = 429 then (None, w')
                    else if status_code response \<ge> 400 then (None, w')
                    else (case json_body response of
                            None \<Rightarrow> (None, w')
                          | Some result \<Rightarrow> (choice_content result, w'))))"

section \<open>analyze_sentiment\<close>

text \<open>\<open>re.search(r'\{.*\}', result, re.DOTALL)\<close>: from the first opening brace to the
  last closing brace after it.\<close>

definition json_match :: "pystr \<Rightarrow> pystr option" where
  "json_match result =
     (let rest = dropWhile (\<lambda>c. c \<noteq> 123) result
      in if 125 \<in> set (tl rest)
         then Some (rev (dropWhile (\<lambda>c. c \<noteq> 125) (rev rest)))
         else None)"

text \<open>\<open>float(x)\<close> on a decoded value; \<open>None\<close> is the \<open>TypeError\<close>, \<open>ValueError\<close> or
  \<open>OverflowError\<close> it raises.\<close>

fun py_float :: "externals \<Rightarrow> json \<Rightarrow> pyfloat option" where
  "py_float ext (JBool b) = Some (Finite (if b then 1 else 0))"
| "py_float ext (JInt i) =
     (if \<bar>i\<bar> < 2 ^ 1024 - 2 ^ 970 then Some (Finite (of_int i)) else None)"
| "py_float ext (JFloat f) = Some f"
| "py_float ext (JStr s) = float_of_str ext s"
| "py_float ext _ = None"

definition neutral_default :: "pystr \<times> pyfloat" where
  "neutral_default = (str ''neutral'', Finite (1/2))"

definition positive_words :: "pystr list" where
  "positive_words = map str [''positive'', ''optimistic'', ''favorable'', ''good'', ''great'',
     ''excellent'', ''bullish'']"

definition negative_words :: "pystr list" where
  "negative_words = map str [''negative'', ''pessimistic'', ''unfavorable'', ''bad'', ''poor'',
     ''terrible'', ''bearish'']"

text \<open>The handler of \<open>json.JSONDecodeError\<close>, lines 225 to 234.\<close>

definition keyword_sentiment :: "pystr \<Rightarrow> pystr \<times> pyfloat" where
  "keyword_sentiment result =
     (let text_lower = lower result
      in if any_in positive_words text_lower then (str ''positive'', Finite (7/10))
         else if any_in negative_words text_lower then (str ''negative'', Finite (7/10))
         else (str ''neutral'', Finite (1/2)))"

text \<open>Lines 217 to 224 on the decoded value. A value that is no object has no \<open>get\<close>, a
  sentiment that is no string has no \<open>lower\<close>, and \<open>float\<close> may raise: each ends in the
  last handler.\<close>

definition sentiment_of_data :: "externals \<Rightarrow> json \<Rightarrow> pystr \<times> pyfloat" where
  "sentiment_of_data ext sentiment_data =
     (case sentiment_data of
        JDict d \<Rightarrow>
          (case (case map_of d (str ''sentiment'') of
                   None \<Rightarrow> Some (lower (str ''neutral''))
                 | Some (JStr s) \<Rightarrow> Some (lower s)
                 | Some _ \<Rightarrow> None) of
             None \<Rightarrow> neutral_default
           | Some sentiment \<Rightarrow>
               (case (case map_of d (str ''confidence'') of
                        None \<Rightarrow> Some (Finite (1/2))
                      | Some v \<Rightarrow> py_float ext v) of
                  None \<Rightarrow> neutral_default
                | Some confidence \<Rightarrow>
                    (if sentiment \<notin> set (map str [''positive'', ''negative'', ''neutral''])
                     then (str ''neutral'', confidence)
                     else (sentiment, confidence))))
      | _ \<Rightarrow> neutral_default)"

text \<open>Lines 212 to 214: the text handed to the decoder. The name \<open>result\<close> is rebound
  to the matched text when there is a match.\<close>

definition json_candidate :: "pystr \<Rightarrow> pystr" where
  "json_candidate result = (case json_match result of Some m \<Rightarrow> m | None \<Rightarrow> result)"

text \<open>The \<open>try\<close> block, lines 210 to 237. The first handler reads the name \<open>result\<close>
  as the \<open>try\<close> block left it.\<close>

definition parse_sentiment :: "externals \<Rightarrow> pystr \<Rightarrow> pystr \<times> pyfloat" where
  "parse_sentiment ext result0 =
     (let result = json_candidate result0
      in case json_loads ext result of
           JSONDecodeError \<Rightarrow> keyword_sentiment result
         | OtherError \<Rightarrow> neutral_default
         | Decoded sentiment_data \<Rightarrow> sentiment_of_data ext sentiment_data)"

definition sentiment_system_prompt :: pystr where
  "sentiment_system_prompt = str (''You are a sentiment analysis expert. Analyze the sentiment of the provided news text and respond with ONLY a JSON object containing two keys: '' @ [CHR 0x27] @ ''sentiment'' @ [CHR 0x27] @ '' (which should be '' @ [CHR 0x27] @ ''positive'' @ [CHR 0x27] @ '', '' @ [CHR 0x27] @ ''negative'' @ [CHR 0x27] @ '', or '' @ [CHR 0x27] @ ''neutral'' @ [CHR 0x27] @ '') and '' @ [CHR 0x27] @ ''confidence'' @ [CHR 0x27] @ '' (a float between 0 and 1 representing your confidence in the sentiment analysis). Be precise and factual in your analysis.'')"

definition sentiment_messages :: "pystr \<Rightarrow> (pystr \<times> pystr) list" where
  "sentiment_messages truncated_text =
     [(str ''system'', sentiment_system_prompt),
      (str ''user'', str ''Analyze the sentiment of this news text. Consider the overall tone, context, and implications:'' @ [10, 10] @ truncated_text)]"

definition analyze_sentiment ::
  "externals \<Rightarrow> pystr option \<Rightarrow> pystr \<Rightarrow> world \<Rightarrow> (pystr \<times> pyfloat) \<times> world" where
  "analyze_sentiment ext GROQ_API_KEY text w =
     (if strip text = [] then (neutral_default, w)
      else
        let truncated_text = take 4000 text;
            (result, w') = groq_chat ext GROQ_API_KEY (sentiment_messages truncated_text)
                             (str ''llama-3.1-70b-versatile'') (1/10) 2048 w
        in (case result of
              None \<Rightarrow> (neutral_default, w')
            | Some r \<Rightarrow> if r = [] then (neutral_default, w') else (parse_sentiment ext r, w')))"

text \<open>The closed set of labels and the unit interval.\<close>

definition sentiment_labels :: "pystr list" where
  "sentiment_labels = map str [''positive'', ''negative'', ''neutral'']"



section \<open>Operations of BeautifulSoup\<close>

text \<open>
  The document object is itself a tag, named \<open>[document]\<close>; \<open>select\<close> and \<open>find_all\<close>
  search below the node they are called on, in document order. The parser
  \<open>html.parser\<close> hands back tag and attribute names in lower case and the \<open>class\<close>
  attribute as a list. Equality of nodes is equality of name, attributes and contents,
  which is how a dictionary keyed by tags tells its keys apart.
\<close>

fun descendants :: "node \<Rightarrow> node list" where
  "descendants (Tag name attrs contents) = concat (map (\<lambda>c. c # descendants c) contents)"
| "descendants (NavigableString s) = []"
| "descendants (Comment s) = []"

text \<open>Each descendant paired with the tag that holds it: \<open>find_parent()\<close>.\<close>

fun with_parent :: "node \<Rightarrow> (node \<times> node) list" where
  "with_parent (Tag name attrs contents) =
     concat (map (\<lambda>c. (Tag name attrs contents, c) # with_parent c) contents)"
| "with_parent (NavigableString s) = []"
| "with_parent (Comment s) = []"

fun get_text :: "node \<Rightarrow> pystr" where
  "get_text (Tag name attrs contents) = concat (map get_text contents)"
| "get_text (NavigableString s) = s"
| "get_text (Comment s) = []"

fun has_name :: "pystr list \<Rightarrow> node \<Rightarrow> bool" where
  "has_name names (Tag name attrs contents) \<longleftrightarrow> name \<in> set names"
| "has_name names (NavigableString s) \<longleftrightarrow> False"
| "has_name names (Comment s) \<longleftrightarrow> False"

definition find_all :: "pystr list \<Rightarrow> node \<Rightarrow> node list" where
  "find_all names n = filter (has_name names) (descendants n)"

text \<open>The selectors the program uses: a tag name, \<open>.class\<close>, \<open>#id\<close>, \<open>[attr="value"]\<close> and
  \<open>[attr*="value"]\<close>. A list-valued attribute is matched as its members joined by a
  space; a class given as one string is split at HTML whitespace.\<close>

datatype selector =
    ByTag pystr
  | ByClass pystr
  | ById pystr
  | ByAttrEq pystr pystr
  | ByAttrSub pystr pystr

definition html_space :: "nat \<Rightarrow> bool" where
  "html_space c \<longleftrightarrow> c = 32 \<or> c = 9 \<or> c = 10 \<or> c = 12 \<or> c = 13"

fun words_of :: "pystr \<Rightarrow> pystr \<Rightarrow> pystr list" where
  "words_of cur [] = (if cur = [] then [] else [cur])"
| "words_of cur (c # cs) =
     (if html_space c then (if cur = [] then words_of [] cs else cur # words_of [] cs)
      else words_of (cur @ [c]) cs)"

fun attr_text :: "attr_value \<Rightarrow> pystr" where
  "attr_text (Single s) = s"
| "attr_text (Multi xs) = join [32] xs"

fun classes_of :: "attr_value \<Rightarrow> pystr list" where
  "classes_of (Single s) = words_of [] s"
| "classes_of (Multi xs) = xs"

fun matches :: "selector \<Rightarrow> node \<Rightarrow> bool" where
  "matches (ByTag t) (Tag name attrs contents) \<longleftrightarrow> name = t"
| "matches (ByClass c) (Tag name attrs contents) \<longleftrightarrow>
     (case map_of attrs (str ''class'') of None \<Rightarrow> False | Some v \<Rightarrow> c \<in> set (classes_of v))"
| "matches (ById i) (Tag name attrs contents) \<longleftrightarrow> map_of attrs (str ''id'') = Some (Single i)"
| "matches (ByAttrEq k v) (Tag name attrs contents) \<longleftrightarrow>
     (case map_of attrs k of None \<Rightarrow> False | Some x \<Rightarrow> attr_text x = v)"
| "matches (ByAttrSub k v) (Tag name attrs contents) \<longleftrightarrow>
     (case map_of attrs k of None \<Rightarrow> False | Some x \<Rightarrow> py_in v (attr_text x))"
| "matches sel (NavigableString s) \<longleftrightarrow> False"
| "matches sel (Comment s) \<longleftrightarrow> False"

definition select :: "selector \<Rightarrow> node \<Rightarrow> node list" where
  "select sel soup = filter (matches sel) (descendants soup)"

text \<open>\<open>for element in soup.select(selector): element.decompose()\<close>: every subtree whose
  root matches is taken out of the document.\<close>

fun decompose_all :: "selector \<Rightarrow> node \<Rightarrow> node" where
  "decompose_all sel (Tag name attrs contents) =
     Tag name attrs (map (decompose_all sel) (filter (\<lambda>c. \<not> matches sel c) contents))"
| "decompose_all sel (NavigableString s) = NavigableString s"
| "decompose_all sel (Comment s) = Comment s"

section \<open>The three substitutions that clean the text\<close>

text \<open>\<open>re.sub(r'\s+', ' ', text)\<close>.\<close>

function collapse_whitespace :: "pystr \<Rightarrow> pystr" where
  "collapse_whitespace [] = []"
| "collapse_whitespace (c # cs) =
     (if isspace c then 32 # collapse_whitespace (dropWhile isspace cs)
      else c # collapse_whitespace cs)"
  by pat_completeness auto
termination
  by (relation "measure length") (auto simp: le_imp_less_Suc length_dropWhile_le)

text \<open>Under \<open>re.IGNORECASE\<close> a character matches a lower-case ASCII letter of the
  pattern when it lowers to it, and the dotless i and the long s match i and s.\<close>

definition sre_lower :: "nat \<Rightarrow> nat" where
  "sre_lower c = (if c = 304 then 105 else if c = 8490 then 107 else lower_cp c)"

definition ci_match :: "nat \<Rightarrow> nat \<Rightarrow> bool" where
  "ci_match p c \<longleftrightarrow> sre_lower c = p \<or> (p = 105 \<and> c = 305) \<or> (p = 115 \<and> c = 383)"

fun ci_startswith :: "pystr \<Rightarrow> pystr \<Rightarrow> bool" where
  "ci_startswith s [] \<longleftrightarrow> True"
| "ci_startswith [] (p # ps) \<longleftrightarrow> False"
| "ci_startswith (c # cs) (p # ps) \<longleftrightarrow> ci_match p c \<and> ci_startswith cs ps"

text \<open>The word characters of \<open>\w\<close>.\<close>

definition is_word :: "nat \<Rightarrow> bool" where
  "is_word c \<longleftrightarrow>
     (48 \<le> c \<and> c \<le> 57) \<or> (65 \<le> c \<and> c \<le> 90) \<or> c = 95 \<or> (97 \<le> c \<and> c \<le> 122) \<or>
     c = 170 \<or> c = 178 \<or> c = 179 \<or> c = 181 \<or> c = 185 \<or> c = 186 \<or>
     (188 \<le> c \<and> c \<le> 190) \<or> (192 \<le> c \<and> c \<le> 214) \<or> (216 \<le> c \<and> c \<le> 246) \<or>
     (248 \<le> c \<and> c \<le> 255) \<or> c = 304 \<or> c = 305 \<or> c = 383 \<or> c = 8490"

text \<open>\<open>.*?\.\<close>: what follows the first full stop, when no newline comes before it.\<close>

fun upto_period :: "pystr \<Rightarrow> pystr option" where
  "upto_period [] = None"
| "upto_period (c # cs) =
     (if c = 46 then Some cs else if c = 10 then None else upto_period cs)"

text \<open>A match of \<open>ADVERTISEMENT.*?\.\s*\<close> at the head of the text: what is left after it.\<close>

definition match_advertisement :: "pystr \<Rightarrow> pystr option" where
  "match_advertisement s =
     (if ci_startswith s (str ''advertisement'')
      then (case upto_period (drop 13 s) of
              None \<Rightarrow> None
            | Some rest \<Rightarrow> Some (dropWhile isspace rest))
      else None)"

text \<open>A match of \<open>\b(?:please|subscribe|share|comment|like)\b.*?\.\<close> at the head of the
  text, given the character before it: what is left after it.\<close>

definition promo_words :: "pystr list" where
  "promo_words = map str [''please'', ''subscribe'', ''share'', ''comment'', ''like'']"

definition boundary_after :: "pystr \<Rightarrow> bool" where
  "boundary_after rest \<longleftrightarrow> (case rest of [] \<Rightarrow> True | d # _ \<Rightarrow> \<not> is_word d)"

fun match_promo_words :: "pystr list \<Rightarrow> pystr \<Rightarrow> pystr option" where
  "match_promo_words [] s = None"
| "match_promo_words (k # ks) s =
     (case (if ci_startswith s k \<and> boundary_after (drop (length k) s)
            then upto_period (drop (length k) s) else None) of
        Some rest \<Rightarrow> Some rest
      | None \<Rightarrow> match_promo_words ks s)"

definition match_promo :: "nat option \<Rightarrow> pystr \<Rightarrow> pystr option" where
  "match_promo prev s =
     (if (case prev of None \<Rightarrow> False | Some b \<Rightarrow> is_word b) then None
      else match_promo_words promo_words s)"

text \<open>\<open>re.sub\<close> with an empty replacement: the matches are found from left to right,
  each search starting where the match before ended.\<close>

function sub_advertisement :: "pystr \<Rightarrow> pystr" where
  "sub_advertisement [] = []"
| "sub_advertisement (c # cs) =
     (case match_advertisement (c # cs) of
        Some rest \<Rightarrow> sub_advertisement rest
      | None \<Rightarrow> c # sub_advertisement cs)"
  by pat_completeness auto
termination
proof (relation "measure length")
  show "wf (measure length)" by simp
next
  fix c :: nat and cs rest :: pystr
  assume m: "match_advertisement (c # cs) = Some rest"
  have upto: "length r < length s" if "upto_period s = Some r" for s r
    using that by (induction s) (auto split: if_splits)
  from m obtain r where r: "upto_period (drop 13 (c # cs)) = Some r"
    and rest: "rest = dropWhile isspace r"
    by (auto simp: match_advertisement_def split: if_splits option.splits)
  have "length rest \<le> length r"
    using rest by (simp add: length_dropWhile_le)
  also have "length r < length (drop 13 (c # cs))"
    using upto [OF r] .
  also have "\<dots> \<le> length (c # cs)" by simp
  finally show "(rest, c # cs) \<in> measure length" by simp
next
  fix c :: nat and cs :: pystr
  show "(cs, c # cs) \<in> measure length" by simp
qed

function sub_promo :: "nat option \<Rightarrow> pystr \<Rightarrow> pystr" where
  "sub_promo prev [] = []"
| "sub_promo prev (c # cs) =
     (case match_promo prev (c # cs) of
        Some rest \<Rightarrow> sub_promo (Some 46) rest
      | None \<Rightarrow> c # sub_promo (Some c) cs)"
  by pat_completeness auto
termination
proof (relation "measure (\<lambda>(prev, s). length s)")
  show "wf (measure (\<lambda>(prev, s). length s))" by simp
next
  fix prev :: "nat option" and c :: nat and cs rest :: pystr
  assume m: "match_promo prev (c # cs) = Some rest"
  have upto: "length r < length s" if "upto_period s = Some r" for s r
    using that by (induction s) (auto split: if_splits)
  have shorter: "length r < length s" if "match_promo_words ks s = Some r" for ks s r
    using that
  proof (induction ks)
    case Nil
    then show ?case by simp
  next
    case (Cons k ks)
    show ?case
    proof (cases "ci_startswith s k \<and> boundary_after (drop (length k) s)")
      case True
      show ?thesis
      proof (cases "upto_period (drop (length k) s)")
        case None
        with True Cons show ?thesis by simp
      next
        case (Some r')
        with True Cons.prems have "r' = r" by simp
        with upto [OF Some] show ?thesis
          by (simp add: less_diff_conv)
      qed
    next
      case False
      with Cons show ?thesis by simp
    qed
  qed
  from m have "match_promo_words promo_words (c # cs) = Some rest"
    by (simp add: match_promo_def split: if_splits)
  then have "length rest < length (c # cs)"
    by (rule shorter)
  then show "((Some 46, rest), (prev, c # cs)) \<in> measure (\<lambda>(prev, s). length s)" by simp
next
  fix prev :: "nat option" and c :: nat and cs :: pystr
  show "((Some c, cs), (prev, c # cs)) \<in> measure (\<lambda>(prev, s). length s)" by simp
qed

text \<open>Lines 171 to 174.\<close>

definition clean_text :: "pystr \<Rightarrow> pystr" where
  "clean_text text0 =
     (let text1 = collapse_whitespace text0;
          text2 = sub_advertisement text1;
          text3 = sub_promo None text2
      in strip text3)"

section \<open>fetch_full_article\<close>

definition noise_selectors :: "selector list" where
  "noise_selectors =
     map (ByTag \<circ> str) [''script'', ''style'', ''nav'', ''footer'', ''aside'', ''header''] @
     map (ByClass \<circ> str) [''advertisement'', ''ad'', ''popup'', ''modal'', ''newsletter'',
       ''social-share'', ''comments'', ''related-articles'']"

definition content_selectors :: "selector list" where
  "content_selectors =
     [ByTag (str ''article''), ByTag (str ''main''), ByAttrEq (str ''role'') (str ''main'')] @
     map (ByClass \<circ> str) [''article-content'', ''story-content'', ''post-content'',
       ''entry-content'', ''content__article-body'', ''article__body'',
       ''article-text'', ''post-body'', ''story-body''] @
     map (ByAttrSub (str ''class'') \<circ> str) [''content'', ''article'', ''story''] @
     map (ById \<circ> str) [''article'', ''content'', ''main-content'']"

text \<open>Lines 108 to 112.\<close>

definition remove_unwanted :: "node \<Rightarrow> node" where
  "remove_unwanted soup = fold decompose_all noise_selectors soup"

text \<open>Lines 124 to 130: the first element of the first selector that matches.\<close>

fun first_selected :: "selector list \<Rightarrow> node \<Rightarrow> node option" where
  "first_selected [] soup = None"
| "first_selected (selector # rest) soup =
     (case select selector soup of
        [] \<Rightarrow> first_selected rest soup
      | element # _ \<Rightarrow> Some element)"

text \<open>Lines 138 to 144: the dictionary from a parent to its paragraphs, in the order the
  parents were first met.\<close>

fun add_paragraph :: "(node \<times> node list) list \<Rightarrow> node \<times> node \<Rightarrow> (node \<times> node list) list" where
  "add_paragraph [] (parent, p) = [(parent, [p])]"
| "add_paragraph ((k, ps) # rest) (parent, p) =
     (if k = parent then (k, ps @ [p]) # rest else (k, ps) # add_paragraph rest (parent, p))"

definition group_by_parent :: "node \<Rightarrow> (node \<times> node list) list" where
  "group_by_parent soup =
     foldl add_paragraph []
       (filter (\<lambda>(parent, p). has_name [str ''p''] p) (with_parent soup))"

text \<open>\<open>max(items, key=lambda x: len(x[1]))\<close>: the first item among those with the most
  paragraphs.\<close>

fun max_by_len :: "node \<times> node list \<Rightarrow> (node \<times> node list) list \<Rightarrow> node \<times> node list" where
  "max_by_len best [] = best"
| "max_by_len best (x # xs) =
     max_by_len (if length (snd best) < length (snd x) then x else best) xs"

text \<open>Lines 135 to 150.\<close>

definition largest_text_block :: "node \<Rightarrow> node option" where
  "largest_text_block soup =
     (let paragraphs = find_all [str ''p''] soup
      in if paragraphs \<noteq> [] \<and> length paragraphs > 3
         then (case group_by_parent soup of
                 [] \<Rightarrow> None
               | item # items \<Rightarrow> Some (fst (max_by_len item items)))
         else None)"

definition find_content :: "node \<Rightarrow> node option" where
  "find_content soup =
     (case first_selected content_selectors soup of
        Some content \<Rightarrow> Some content
      | None \<Rightarrow> largest_text_block soup)"

text \<open>Lines 156 to 162: the fragments that are kept.\<close>

definition boilerplate_prefixes :: "pystr list" where
  "boilerplate_prefixes = map str [''advertisement'', ''related:'', ''read more:'',
     ''share this:'', ''subscribe'', ''newsletter'', ''comment'', ''sponsored'']"

definition keep_fragment :: "pystr \<Rightarrow> bool" where
  "keep_fragment text \<longleftrightarrow> length text > 30 \<and> \<not> any_in boilerplate_prefixes (lower text)"

definition collect_texts :: "node \<Rightarrow> pystr list" where
  "collect_texts content =
     filter keep_fragment
       (map (\<lambda>element. strip (get_text element))
          (find_all (map str [''p'', ''h1'', ''h2'', ''h3'', ''li'']) content))"

text \<open>Lines 153 to 185.\<close>

definition extract_text :: "node option \<Rightarrow> pystr option" where
  "extract_text content_opt =
     (case content_opt of
        None \<Rightarrow> None
      | Some content \<Rightarrow>
          let texts = collect_texts content;
              text0 = (if texts = [] then get_text content else join [10] texts);
              text = clean_text text0
          in if length text > 200 then Some text else None)"

definition extract_article :: "node \<Rightarrow> pystr option" where
  "extract_article soup0 =
     (let soup = remove_unwanted soup0
      in extract_text (find_content soup))"

text \<open>The whole function. \<open>raise_for_status\<close> raises on a status from 400 to 599, and
  every exception ends in \<open>None\<close>.\<close>

definition fetch_full_article :: "externals \<Rightarrow> pystr \<Rightarrow> world \<Rightarrow> pystr option \<times> world" where
  "fetch_full_article ext url w =
     (let w' = w @ [Get url]
      in case requests_get ext w url of
           Raises e \<Rightarrow> (None, w')
         | Returns response \<Rightarrow>
             if 400 \<le> get_status response \<and> get_status response < 600 then (None, w')
             else if length (response_content response) < 1000 then (None, w')
             else (case html_parser ext (response_content response) of
                     None \<Rightarrow> (None, w')
                   | Some soup \<Rightarrow> (extract_article soup, w')))"

section \<open>summarize_text\<close>

text \<open>\<open>re.split(r'(?<=[.!?])\s+', text)\<close>: the text is cut at each run of whitespace
  that follows a full stop, an exclamation mark or a question mark. The flag says that
  the character before is one of the three; \<open>cur\<close> is the piece read so far.\<close>

function split_after :: "bool \<Rightarrow> pystr \<Rightarrow> pystr \<Rightarrow> pystr list" where
  "split_after terminal cur [] = [cur]"
| "split_after terminal cur (c # cs) =
     (if terminal \<and> isspace c then cur # split_after False [] (dropWhile isspace cs)
      else split_after (c = 46 \<or> c = 33 \<or> c = 63) (cur @ [c]) cs)"
  by pat_completeness auto
termination
  by (relation "measure (\<lambda>(terminal, cur, s). length s)")
     (auto simp: le_imp_less_Suc length_dropWhile_le)

definition split_sentences :: "pystr \<Rightarrow> pystr list" where
  "split_sentences text = split_after False [] text"

text \<open>Line 271 and lines 422 to 423: the stripped sentences longer than \<open>n\<close> that hold
  none of the words.\<close>

definition meaningful :: "nat \<Rightarrow> pystr list \<Rightarrow> pystr list \<Rightarrow> pystr list" where
  "meaningful n words sentences =
     map strip (filter (\<lambda>s. length (strip s) > n \<and> \<not> any_in words (lower s)) sentences)"

definition ai_unavailable :: pystr where
  "ai_unavailable = warning_sign @ str '' AI summary unavailable''"

definition could_not_generate :: pystr where
  "could_not_generate = warning_sign @
     str '' Could not generate summary. The article content may be inaccessible or formatted unusually.''"

text \<open>Lines 268 to 277.\<close>

definition basic_summary :: "pystr \<Rightarrow> pystr" where
  "basic_summary text =
     (let sentences = split_sentences text;
          meaningful_sentences =
            meaningful 20 (map str [''subscribe'', ''share'', ''comment'']) sentences
      in if meaningful_sentences \<noteq> []
         then ai_unavailable @ str ''. Key information from the article: '' @
              join [32] (take 5 meaningful_sentences)
         else could_not_generate)"

definition summary_system_prompt :: pystr where
  "summary_system_prompt =
     str ''You are a professional news analyst. Provide comprehensive, detailed summaries that capture:'' @ [10] @
     str ''1. The main story and key events'' @ [10] @
     str ''2. Important context and background information'' @ [10] @
     str ''3. Key facts, figures, and data points'' @ [10] @
     str ''4. Significant quotes from important figures'' @ [10] @
     str ''5. Implications and potential consequences'' @ [10] @
     str ''6. Future outlook or next steps'' @ [10, 10] @
     str ''Aim for 5-7 detailed sentences that provide substantial information. Be factual, objective, and thorough.''"

definition summary_messages :: "pystr \<Rightarrow> pystr \<Rightarrow> (pystr \<times> pystr) list" where
  "summary_messages truncated_text title =
     [(str ''system'', summary_system_prompt),
      (str ''user'',
       str ''Please provide a detailed, comprehensive summary of the following news article'' @
       (if title \<noteq> [] then str '' titled: '' @ title else []) @ str '':'' @ [10, 10] @
       truncated_text)]"

definition summarize_text :: "externals \<Rightarrow> pystr option \<Rightarrow> pystr \<Rightarrow> pystr \<Rightarrow> world \<Rightarrow> pystr \<times> world" where
  "summarize_text ext GROQ_API_KEY text title w =
     (if strip text = [] then (str ''No text to summarize'', w)
      else
        let truncated_text = take 8000 text;
            (summary, w') = groq_chat ext GROQ_API_KEY (summary_messages truncated_text title)
                              (str ''llama-3.1-70b-versatile'') (2/10) 1024 w
        in (case summary of
              None \<Rightarrow> (basic_summary text, w')
            | Some s \<Rightarrow> if s = [] then (basic_summary text, w') else (s, w')))"

section \<open>The route /summarize\<close>

text \<open>
  What \<open>request.get_json()\<close> gives the route: it raises (a body that is no JSON), or it
  returns the decoded body, \<open>JNull\<close> standing for \<open>None\<close>. The fields of the body are
  read as they come, of any JSON type. The answer is an error with its status and message,
  the answer of the last handler (status 500, \<open>Internal server error:\<close> and the text of the
  exception), or the analysis with status 200. The confidence is sent as \<open>str(score)\<close>.
\<close>

datatype body = Rejected | Body json

record analysis =
  summary :: pystr
  sentiment :: pystr
  confidence :: pyfloat
  used_full_article :: bool

datatype response = Error nat pystr | InternalError | Ok analysis

definition full_article_unavailable :: pystr where
  "full_article_unavailable = warning_sign @
     str '' Note: Full article content was unavailable. This summary is based on the preview text only.'' @ [10, 10]"

definition comprehensive_unavailable :: pystr where
  "comprehensive_unavailable =
     str ''Comprehensive summary unavailable. The article content may be inaccessible or formatted unusually. Please try another article.''"

text \<open>Lines 421 to 429.\<close>

definition enhanced_fallback :: "pystr \<Rightarrow> pystr" where
  "enhanced_fallback text_to_summarize =
     (let sentences = split_sentences text_to_summarize;
          meaningful_sentences =
            meaningful 30 (map str [''subscribe'', ''share'', ''comment'', ''read more'']) sentences
      in if meaningful_sentences \<noteq> [] \<and> length meaningful_sentences \<ge> 3
         then str ''Key points from the article: '' @ join [32] (take 5 meaningful_sentences)
         else comprehensive_unavailable)"

text \<open>\<open>bool(x)\<close> on a decoded value.\<close>

fun truthy :: "json \<Rightarrow> bool" where
  "truthy JNull \<longleftrightarrow> False"
| "truthy (JBool b) \<longleftrightarrow> b"
| "truthy (JInt i) \<longleftrightarrow> i \<noteq> 0"
| "truthy (JFloat f) \<longleftrightarrow> f \<noteq> Finite 0"
| "truthy (JStr s) \<longleftrightarrow> s \<noteq> []"
| "truthy (JList xs) \<longleftrightarrow> xs \<noteq> []"
| "truthy (JDict d) \<longleftrightarrow> d \<noteq> []"

text \<open>\<open>data.get(key, "")\<close>.\<close>

definition get_field :: "(pystr \<times> json) list \<Rightarrow> pystr \<Rightarrow> json" where
  "get_field d k = (case map_of d k of None \<Rightarrow> JStr [] | Some v \<Rightarrow> v)"

text \<open>\<open>len(x)\<close> raises \<open>TypeError\<close> on \<open>None\<close>, a number and a boolean.\<close>

fun has_len :: "json \<Rightarrow> bool" where
  "has_len (JStr s) \<longleftrightarrow> True"
| "has_len (JList xs) \<longleftrightarrow> True"
| "has_len (JDict d) \<longleftrightarrow> True"
| "has_len v \<longleftrightarrow> False"

fun is_str :: "json \<Rightarrow> bool" where
  "is_str (JStr s) \<longleftrightarrow> True"
| "is_str v \<longleftrightarrow> False"

text \<open>The string a value is when it is one, and the empty string otherwise.\<close>

fun str_of :: "json \<Rightarrow> pystr" where
  "str_of (JStr s) = s"
| "str_of v = []"

text \<open>
  \<open>fetch_full_article(article_url)\<close> on the decoded field. \<open>requests\<close> turns a URL that is
  no string into its text, which names no scheme it can serve: it raises before anything
  is sent, and the function returns \<open>None\<close>.
\<close>

definition fetch_field :: "externals \<Rightarrow> json \<Rightarrow> world \<Rightarrow> pystr option \<times> world" where
  "fetch_field ext article_url w =
     (case article_url of JStr u \<Rightarrow> fetch_full_article ext u w | _ \<Rightarrow> (None, w))"

text \<open>Line 405: \<open>full_article_text if full_article_text else preview_text\<close>.\<close>

definition choose_text :: "pystr option \<Rightarrow> json \<Rightarrow> json" where
  "choose_text full_article_text preview_text =
     (case full_article_text of
        None \<Rightarrow> preview_text
      | Some t \<Rightarrow> if t = [] then preview_text else JStr t)"

text \<open>
  The route, lines 380 to 446. Every exception ends in the last handler:
  \<open>data.get\<close> on a body that is no object, \<open>len(preview_text)\<close> on a text without length
  (line 392, before the URL is looked at), \<open>strip\<close> on a text that is a list or an object
  (line 407), and \<open>' titled: ' + title\<close> on a truthy title that is no string (line 258,
  reached because the text is not blank, before the completion call).
\<close>

definition summarize :: "externals \<Rightarrow> pystr option \<Rightarrow> body \<Rightarrow> world \<Rightarrow> response \<times> world" where
  "summarize ext GROQ_API_KEY request w =
     (case request of
        Rejected \<Rightarrow> (InternalError, w)
      | Body data \<Rightarrow>
          if \<not> truthy data then (Error 400 (str ''No JSON data provided''), w)
          else
            (case data of
               JDict d \<Rightarrow>
                 let article_url = get_field d (str ''url'');
                     preview_text = get_field d (str ''text'');
                     title = get_field d (str ''title'')
                 in if \<not> has_len preview_text then (InternalError, w)
                    else if \<not> truthy article_url
                    then (Error 400 (str ''No article URL provided''), w)
                    else if GROQ_API_KEY = None \<or> GROQ_API_KEY = Some []
                    then (Error 500 (str ''Groq API key is not configured. Please check your environment variables.''), w)
                    else
                      let (full_article_text, w1) = fetch_field ext article_url w;
                          text_to_summarize = choose_text full_article_text preview_text
                      in if \<not> truthy text_to_summarize
                         then (Error 400 (str ''No text content available to summarize''), w1)
                         else if \<not> is_str text_to_summarize then (InternalError, w1)
                         else if strip (str_of text_to_summarize) = []
                         then (Error 400 (str ''No text content available to summarize''), w1)
                         else if truthy title \<and> \<not> is_str title then (InternalError, w1)
                         else
                           let summary_prefix =
                                 (if full_article_text = None \<or> full_article_text = Some []
                                  then full_article_unavailable else []);
                               (summary0, w2) =
                                 summarize_text ext GROQ_API_KEY (str_of text_to_summarize)
                                   (str_of title) w1;
                               summary1 =
                                 (if summary0 = [] \<or> py_in ai_unavailable summary0
                                  then enhanced_fallback (str_of text_to_summarize)
                                  else summary0);
                               ((sentiment_label, score), w3) =
                                 analyze_sentiment ext GROQ_API_KEY (str_of text_to_summarize) w2
                           in (Ok \<lparr>summary = summary_prefix @ summary1,
                                    sentiment = sentiment_label,
                                    confidence = score,
                                    used_full_article =
                                      (full_article_text \<noteq> None \<and> full_article_text \<noteq> Some [])\<rparr>,
                               w3)
             | _ \<Rightarrow> (InternalError, w)))"

section \<open>Notions the properties speak of\<close>

text \<open>The summary call as \<open>summarize_text\<close> makes it.\<close>

definition summary_chat ::
  "externals \<Rightarrow> pystr option \<Rightarrow> pystr \<Rightarrow> pystr \<Rightarrow> world \<Rightarrow> pystr option \<times> world" where
  "summary_chat ext GROQ_API_KEY text title w =
     groq_chat ext GROQ_API_KEY (summary_messages (take 8000 text) title)
       (str ''llama-3.1-70b-versatile'') (2/10) 1024 w"

text \<open>The fallbacks as the specification words them: the stripped sentences of the text
  that are longer than \<open>n\<close> characters and hold none of the words.\<close>

definition kept_sentences :: "nat \<Rightarrow> pystr list \<Rightarrow> pystr \<Rightarrow> pystr list" where
  "kept_sentences n words text =
     [strip s. s \<leftarrow> split_sentences text,
        n < length (strip s) \<and> (\<forall>word \<in> set words. \<not> py_in word (lower s))]"

text \<open>The filter as the specification words it: longer than 30 characters, and the
  lower-case form starts with none of the markers.\<close>

definition keep_fragment_as_specified :: "pystr \<Rightarrow> bool" where
  "keep_fragment_as_specified text \<longleftrightarrow>
     length text > 30 \<and> \<not> list_ex (startswith (lower text)) boilerplate_prefixes"

text \<open>The characters \<open>re.split\<close> cuts after.\<close>

definition terminal :: "nat \<Rightarrow> bool" where
  "terminal c \<longleftrightarrow> c = 46 \<or> c = 33 \<or> c = 63"

section \<open>Concrete services for the examples\<close>

text \<open>A completion service that answers every request with status 200 and the given
  content, and a decoder that knows one text.\<close>

definition reply_body :: "pystr \<Rightarrow> json" where
  "reply_body c =
     JDict [(str ''choices'', JList [JDict [(str ''message'', JDict [(str ''content'', JStr c)])]])]"

definition replying :: "pystr \<Rightarrow> (pystr \<Rightarrow> decoded) \<Rightarrow> externals" where
  "replying c loads =
     \<lparr>requests_post = (\<lambda>w r. Returns \<lparr>status_code = 200, json_body = Some (reply_body c)\<rparr>),
      requests_get = (\<lambda>w u. Raises ConnectionError),
      json_loads = loads,
      float_of_str = (\<lambda>s. None),
      html_parser = (\<lambda>b. None)\<rparr>"

text \<open>Three replies of the completion service.\<close>

definition confidence_five :: pystr where
  \<open>confidence_five = str ''{"sentiment": "positive", "confidence": 5}''\<close>

definition loads_confidence_five :: "pystr \<Rightarrow> decoded" where
  "loads_confidence_five s =
     (if s = confidence_five
      then Decoded (JDict [(str ''sentiment'', JStr (str ''positive'')), (str ''confidence'', JInt 5)])
      else JSONDecodeError)"




text \<open>A network that serves one page, which the parser reads as the given document,
  and a network on which nothing can be reached.\<close>

definition serving :: "nat list \<Rightarrow> node \<Rightarrow> externals" where
  "serving page soup =
     \<lparr>requests_post = (\<lambda>w r. Raises ConnectionError),
      requests_get = (\<lambda>w u. Returns \<lparr>get_status = 200, response_content = page\<rparr>),
      json_loads = (\<lambda>s. JSONDecodeError),
      float_of_str = (\<lambda>s. None),
      html_parser = (\<lambda>b. if b = page then Some soup else None)\<rparr>"

definition unreachable :: externals where
  "unreachable =
     \<lparr>requests_post = (\<lambda>w r. Raises ConnectionError),
      requests_get = (\<lambda>w u. Raises ConnectionError),
      json_loads = (\<lambda>s. JSONDecodeError),
      float_of_str = (\<lambda>s. None),
      html_parser = (\<lambda>b. None)\<rparr>"

text \<open>A page of 1164 bytes: a style sheet that is one long comment, and an article of one
  paragraph.\<close>

definition council_paragraph :: pystr where
  "council_paragraph = str ''Residents said they like the new plan. The council approved the budget on Monday after a long debate that lasted several hours. Speakers from the neighbourhood asked for safer streets and better lighting near the school, and the mayor promised a report before the end of the year.''"

definition style_comment :: pystr where
  "style_comment = str ''/*'' @ replicate 800 45 @ str ''*/''"

definition council_page :: "nat list" where
  "council_page =
     str ''<html><head><style>'' @ style_comment @ str ''</style></head><body><article><p>'' @
     council_paragraph @ str ''</p></article></body></html>''"

definition council_soup :: node where
  "council_soup =
     Tag (str ''[document]'') []
       [Tag (str ''html'') []
          [Tag (str ''head'') []
             [Tag (str ''style'') [] [NavigableString style_comment]],
           Tag (str ''body'') []
             [Tag (str ''article'') [] [Tag (str ''p'') [] [NavigableString council_paragraph]]]]]"

text \<open>A page of 1258 bytes without any container the selectors know: three paragraphs
  of 400 letters each in a plain \<open>div\<close>.\<close>

definition letters :: "nat \<Rightarrow> pystr" where
  "letters c = replicate 400 c"

definition plain_page :: "nat list" where
  "plain_page =
     str ''<html><body><div><p>'' @ letters 97 @ str ''</p><p>'' @ letters 98 @
     str ''</p><p>'' @ letters 99 @ str ''</p></div></body></html>''"

definition plain_soup :: node where
  "plain_soup =
     Tag (str ''[document]'') []
       [Tag (str ''html'') []
          [Tag (str ''body'') []
             [Tag (str ''div'') []
                [Tag (str ''p'') [] [NavigableString (letters 97)],
                 Tag (str ''p'') [] [NavigableString (letters 98)],
                 Tag (str ''p'') [] [NavigableString (letters 99)]]]]]"

text \<open>A body of 999 bytes.\<close>

definition short_paragraph :: pystr where
  "short_paragraph = replicate 947 97"

definition short_page :: "nat list" where
  "short_page = str ''<html><body><article><p>'' @ short_paragraph @ str ''</p></article></body></html>''"

definition short_soup :: node where
  "short_soup =
     Tag (str ''[document]'') []
       [Tag (str ''html'') []
          [Tag (str ''body'') []
             [Tag (str ''article'') [] [Tag (str ''p'') [] [NavigableString short_paragraph]]]]]"

text \<open>An article of two paragraphs; the word comment stands inside the first.\<close>

definition report_fragment :: pystr where
  "report_fragment = str ''Officials declined to comment on the report on Tuesday.''"

definition bridge_fragment :: pystr where
  "bridge_fragment = str ''The harbour bridge reopens to traffic early next week.''"

definition report_article :: node where
  "report_article =
     Tag (str ''article'') []
       [Tag (str ''p'') [] [NavigableString report_fragment],
        Tag (str ''p'') [] [NavigableString bridge_fragment]]"

text \<open>What the code extracts from the page of 1164 bytes.\<close>

definition council_extracted :: pystr where
  "council_extracted = str ''Residents said they  The council approved the budget on Monday after a long debate that lasted several hours. Speakers from the neighbourhood asked for safer streets and better lighting near the school, and the mayor promised a report before the end of the year.''"

text \<open>A text of six sentences, and its first five.\<close>

definition six_sentences :: pystr where
  "six_sentences = str ''The council met on Monday evening. It approved the new budget plan. Roads will be repaired next spring. Schools receive more funding too. The mayor thanked all the members. A final report is due in December.''"

definition five_sentences :: pystr where
  "five_sentences = str ''The council met on Monday evening. It approved the new budget plan. Roads will be repaired next spring. Schools receive more funding too. The mayor thanked all the members.''"

text \<open>A text of three sentences; the second quotes the words of the disclaimer.\<close>

definition quoting_text :: pystr where
  "quoting_text =
     str ''Engineers inspected the bridge on Friday morning. The page showed '' @ ai_unavailable @
     str '' for an hour. Traffic returned to normal by the afternoon.''"

definition example_url :: pystr where
  "example_url = str ''https://example.org/d''"

definition preview_request :: "pystr \<Rightarrow> (pystr \<times> json) list" where
  "preview_request preview = [(str ''url'', JStr example_url), (str ''text'', JStr preview)]"

text \<open>A body whose text is \<open>null\<close>.\<close>

definition null_text_request :: "(pystr \<times> json) list" where
  "null_text_request = [(str ''url'', JStr example_url), (str ''text'', JNull)]"

text \<open>What the route sends when the page and the completion service cannot be reached
  and the preview is the text that quotes the disclaimer.\<close>

definition quoting_summary :: pystr where
  "quoting_summary =
     full_article_unavailable @ str ''Key points from the article: '' @ quoting_text"

text \<open>The two answers of the route in the examples.\<close>

definition six_sentences_analysis :: analysis where
  "six_sentences_analysis =
     \<lparr>summary = full_article_unavailable @ str ''Key points from the article: '' @ five_sentences,
      sentiment = str ''neutral'', confidence = Finite (1/2), used_full_article = False\<rparr>"

definition quoting_analysis :: analysis where
  "quoting_analysis =
     \<lparr>summary = quoting_summary,
      sentiment = str ''neutral'', confidence = Finite (1/2), used_full_article = False\<rparr>"

section \<open>Properties: the sentiment analyzer\<close>









text \<open>The unfolding that evaluates the analyzer on a concrete reply.\<close>

lemmas evals = str_def strip_def lstrip_def rstrip_def isspace_def startswith_def
  analyze_sentiment_def groq_chat_def replying_def reply_body_def Let_def
  parse_sentiment_def json_candidate_def json_match_def sentiment_of_data_def
  neutral_default_def sentiment_labels_def keyword_sentiment_def lower_def lower_cp_def
  any_in_def positive_words_def negative_words_def



lemma analyze_sentiment_confidence_five:
  "fst (analyze_sentiment (replying confidence_five loads_confidence_five)
          (Some (str ''key'')) (str ''Shares rose.'') []) = (str ''positive'', Finite 5)"
  by (simp add: evals confidence_five_def loads_confidence_five_def)

lemma strip_blank: "list_all isspace text \<Longrightarrow> strip text = []"
proof -
  assume "list_all isspace text"
  then have "dropWhile isspace text = []"
    by (induction "text") simp_all
  then show ?thesis by (auto simp: strip_def lstrip_def rstrip_def dest: set_dropWhileD)
qed

text \<open>
  C8. On a text that is empty or holds only whitespace, \<open>analyze_sentiment\<close> returns
  neutral with confidence 0.5 and leaves the record of network calls as it was: the
  completion service is not called.
\<close>

theorem analyze_sentiment_blank:
  "list_all isspace text \<Longrightarrow>
   analyze_sentiment ext key text w = ((str ''neutral'', Finite (1/2)), w)"
  by (simp add: analyze_sentiment_def strip_blank neutral_default_def)

text \<open>C8 at a space, a tab and a newline.\<close>

theorem analyze_sentiment_blank_witness:
  "list_all isspace [32, 9, 10] \<and>
   analyze_sentiment (replying confidence_five loads_confidence_five) (Some (str ''key''))
     [32, 9, 10] [] = ((str ''neutral'', Finite (1/2)), [])"
  using analyze_sentiment_blank [of "[32, 9, 10]" "replying confidence_five loads_confidence_five"
      "Some (str ''key'')" "[]"]
  by (simp add: isspace_def)






section \<open>Properties: extraction\<close>

lemma first_selected_none:
  "(\<forall>selector \<in> set sels. select selector soup = []) \<Longrightarrow> first_selected sels soup = None"
  by (induction sels) simp_all

text \<open>
  C5. When the body of the response has fewer than 1000 bytes, \<open>fetch_full_article\<close>
  returns \<open>None\<close>, whatever the status of the response and whatever the parser would make
  of the body: nothing is parsed and nothing is searched.
\<close>

theorem fetch_full_article_small_body:
  assumes "requests_get ext w url = Returns response"
    and "length (response_content response) < 1000"
  shows "fetch_full_article (ext\<lparr>html_parser := parser\<rparr>) url w = (None, w @ [Get url])"
  using assms by (simp add: fetch_full_article_def Let_def)

lemma short_page_length: "length short_page = 999"
  by (simp add: short_page_def short_paragraph_def str_def)

text \<open>C5 at a body of 999 bytes that holds an article of 947 letters.\<close>

theorem fetch_full_article_small_body_witness:
  "requests_get (serving short_page short_soup) [] (str ''https://example.org/a'')
     = Returns \<lparr>get_status = 200, response_content = short_page\<rparr> \<and>
   length (response_content \<lparr>get_status = 200, response_content = short_page\<rparr>) < 1000 \<and>
   fetch_full_article (serving short_page short_soup) (str ''https://example.org/a'') []
     = (None, [Get (str ''https://example.org/a'')])"
proof -
  have h1: "requests_get (serving short_page short_soup) [] (str ''https://example.org/a'')
     = Returns \<lparr>get_status = 200, response_content = short_page\<rparr>"
    by (simp add: serving_def)
  have h2: "length (response_content \<lparr>get_status = 200, response_content = short_page\<rparr>) < 1000"
    by (simp add: short_page_length)
  have "(serving short_page short_soup)\<lparr>html_parser := html_parser (serving short_page short_soup)\<rparr>
          = serving short_page short_soup"
    by simp
  with fetch_full_article_small_body [OF h1 h2, of "html_parser (serving short_page short_soup)"] h1 h2
  show ?thesis by simp
qed

text \<open>
  C10. When no content selector matches the document left after the unwanted elements
  are removed and that document has at most three paragraph elements, the grouping of
  paragraphs by parent is not used and \<open>fetch_full_article\<close> returns \<open>None\<close>, whatever the
  paragraphs hold.
\<close>

theorem fetch_full_article_few_paragraphs:
  assumes "requests_get ext w url = Returns response"
    and "html_parser ext (response_content response) = Some soup"
    and "\<forall>selector \<in> set content_selectors. select selector (remove_unwanted soup) = []"
    and "length (find_all [str ''p''] (remove_unwanted soup)) \<le> 3"
  shows "largest_text_block (remove_unwanted soup) = None \<and>
         fst (fetch_full_article ext url w) = None"
proof -
  have block: "largest_text_block (remove_unwanted soup) = None"
    using assms(4) by (simp add: largest_text_block_def Let_def)
  have "first_selected content_selectors (remove_unwanted soup) = None"
    using assms(3) by (rule first_selected_none)
  with block have "extract_article soup = None"
    by (simp add: extract_article_def find_content_def extract_text_def Let_def)
  with assms(1,2) block show ?thesis
    by (simp add: fetch_full_article_def Let_def)
qed

lemma plain_page_length: "length plain_page = 1258"
  by (simp add: plain_page_def letters_def str_def)

lemma plain_soup_unwanted: "remove_unwanted plain_soup = plain_soup"
  by (simp add: remove_unwanted_def noise_selectors_def plain_soup_def str_def)

text \<open>C10 at a page of 1258 bytes whose three paragraphs hold 1200 letters.\<close>

theorem fetch_full_article_few_paragraphs_witness:
  "requests_get (serving plain_page plain_soup) [] (str ''https://example.org/b'')
     = Returns \<lparr>get_status = 200, response_content = plain_page\<rparr> \<and>
   html_parser (serving plain_page plain_soup)
     (response_content \<lparr>get_status = 200, response_content = plain_page\<rparr>) = Some plain_soup \<and>
   list_all (\<lambda>selector. select selector (remove_unwanted plain_soup) = []) content_selectors \<and>
   length (find_all [str ''p''] (remove_unwanted plain_soup)) \<le> 3 \<and>
   length plain_page \<ge> 1000 \<and>
   largest_text_block (remove_unwanted plain_soup) = None \<and>
   fst (fetch_full_article (serving plain_page plain_soup) (str ''https://example.org/b'') []) = None"
proof -
  have h1: "requests_get (serving plain_page plain_soup) [] (str ''https://example.org/b'')
     = Returns \<lparr>get_status = 200, response_content = plain_page\<rparr>"
    by (simp add: serving_def)
  have h2: "html_parser (serving plain_page plain_soup)
     (response_content \<lparr>get_status = 200, response_content = plain_page\<rparr>) = Some plain_soup"
    by (simp add: serving_def)
  have h3: "\<forall>selector \<in> set content_selectors. select selector (remove_unwanted plain_soup) = []"
    by (simp add: plain_soup_unwanted) (simp add: content_selectors_def select_def plain_soup_def str_def)
  have h4: "length (find_all [str ''p''] (remove_unwanted plain_soup)) \<le> 3"
    by (simp add: plain_soup_unwanted) (simp add: find_all_def plain_soup_def str_def)
  show ?thesis
    using fetch_full_article_few_paragraphs [OF h1 h2 h3 h4] h1 h2 h3 h4
    by (simp add: plain_page_length list_all_iff)
qed

section \<open>Evaluation on concrete texts\<close>

text \<open>The word lists as code points, and \<open>startswith\<close> read character by character.\<close>

lemma promo_words_codes:
  "promo_words =
    [[112, 108, 101, 97, 115, 101],
     [115, 117, 98, 115, 99, 114, 105, 98, 101],
     [115, 104, 97, 114, 101],
     [99, 111, 109, 109, 101, 110, 116],
     [108, 105, 107, 101]]"
  by (simp add: promo_words_def str_def)

lemma boilerplate_prefixes_codes:
  "boilerplate_prefixes =
    [[97, 100, 118, 101, 114, 116, 105, 115, 101, 109, 101, 110, 116],
     [114, 101, 108, 97, 116, 101, 100, 58],
     [114, 101, 97, 100, 32, 109, 111, 114, 101, 58],
     [115, 104, 97, 114, 101, 32, 116, 104, 105, 115, 58],
     [115, 117, 98, 115, 99, 114, 105, 98, 101],
     [110, 101, 119, 115, 108, 101, 116, 116, 101, 114],
     [99, 111, 109, 109, 101, 110, 116],
     [115, 112, 111, 110, 115, 111, 114, 101, 100]]"
  by (simp add: boilerplate_prefixes_def str_def)

lemma match_advertisement_codes:
  "match_advertisement s =
     (if ci_startswith s [97, 100, 118, 101, 114, 116, 105, 115, 101, 109, 101, 110, 116]
      then (case upto_period (drop 13 s) of
              None \<Rightarrow> None
            | Some rest \<Rightarrow> Some (dropWhile isspace rest))
      else None)"
  by (simp add: match_advertisement_def str_def)

lemma startswith_Nil: "startswith s [] \<longleftrightarrow> True"
  by (simp add: startswith_def)

lemma startswith_Nil_Cons: "startswith [] (p # ps) \<longleftrightarrow> False"
  by (simp add: startswith_def)

lemma startswith_Cons_Cons: "startswith (c # cs) (p # ps) \<longleftrightarrow> c = p \<and> startswith cs ps"
  by (auto simp: startswith_def)

lemma strip_id: "s \<noteq> [] \<Longrightarrow> \<not> isspace (hd s) \<Longrightarrow> \<not> isspace (last s) \<Longrightarrow> strip s = s"
proof -
  assume ne: "s \<noteq> []" and h: "\<not> isspace (hd s)" and l: "\<not> isspace (last s)"
  from ne h have "dropWhile isspace s = s"
    by (cases s) simp_all
  moreover from ne l have "dropWhile isspace (rev s) = rev s"
    by (cases "rev s") (simp_all add: last_rev [symmetric] del: last_rev)
  ultimately show ?thesis
    by (simp add: strip_def lstrip_def rstrip_def)
qed

lemmas text_eval =
  isspace_def lower_def lower_cp_def list.map
  py_in.simps startswith_Nil startswith_Nil_Cons startswith_Cons_Cons any_in_def list_ex_Nil_iff list_ex_Cons_iff
  collapse_whitespace.simps dropWhile.simps
  sub_advertisement.simps match_advertisement_codes ci_startswith.simps ci_match_def sre_lower_def
  upto_period.simps drop_Cons_numeral drop_0 drop_Nil drop_Suc_Cons list.size
  sub_promo.simps match_promo_def match_promo_words.simps promo_words_codes boundary_after_def
  is_word_def split_after.simps
  rel_simps arith_simps simp_thms if_True if_False option.simps list.simps
  plus_nat.simps add_Suc_right Nat.add_0_right

lemma council_page_length: "length council_page = 1164"
  by (simp add: council_page_def style_comment_def council_paragraph_def str_def)

lemma council_paragraph_strip: "strip council_paragraph = council_paragraph"
  by (rule strip_id) (simp_all add: council_paragraph_def str_def isspace_def)

lemma council_paragraph_length: "length council_paragraph = 280"
  by (simp add: council_paragraph_def str_def)

lemma council_paragraph_markers: "\<not> any_in boilerplate_prefixes (lower council_paragraph)"
  apply (simp add: council_paragraph_def str_def)
  apply (simp only: boilerplate_prefixes_codes text_eval)
  done

lemma council_paragraph_clean: "clean_text council_paragraph = council_extracted"
  apply (simp add: council_paragraph_def council_extracted_def str_def)
  apply (simp only: clean_text_def Let_def text_eval cong: if_weak_cong option.case_cong_weak)
  apply (rule strip_id)
    apply (simp_all add: isspace_def)
  done

lemma council_extracted_length: "length council_extracted = 262"
  by (simp add: council_extracted_def str_def)

lemma council_soup_unwanted:
  "remove_unwanted council_soup =
     Tag (str ''[document]'') []
       [Tag (str ''html'') []
          [Tag (str ''head'') [] [],
           Tag (str ''body'') []
             [Tag (str ''article'') [] [Tag (str ''p'') [] [NavigableString council_paragraph]]]]]"
  by (simp add: remove_unwanted_def noise_selectors_def council_soup_def str_def)

lemma council_soup_extract: "extract_article council_soup = Some council_extracted"
  by (simp add: extract_article_def council_soup_unwanted Let_def)
     (simp add: find_content_def content_selectors_def select_def extract_text_def
        collect_texts_def find_all_def keep_fragment_def str_def Let_def
        council_paragraph_strip council_paragraph_length council_paragraph_markers
        council_paragraph_clean council_extracted_length)

text \<open>
  C3 at a page of 1164 bytes whose article is one paragraph of 280 characters with the
  sentence \<^verbatim>\<open>Residents said they like the new plan.\<close> in front. Extraction succeeds with
  262 characters; the third substitution takes \<^verbatim>\<open>like the new plan.\<close> out and leaves the
  space before it and the space after it side by side, at positions 19 and 20.
\<close>

theorem fetch_full_article_double_space:
  "fetch_full_article (serving council_page council_soup) (str ''https://example.org/c'') []
     = (Some council_extracted, [Get (str ''https://example.org/c'')]) \<and>
   length council_extracted > 200 \<and>
   isspace (council_extracted ! 19) \<and> isspace (council_extracted ! 20)"
proof -
  have "fetch_full_article (serving council_page council_soup) (str ''https://example.org/c'') []
     = (Some council_extracted, [Get (str ''https://example.org/c'')])"
    by (simp add: fetch_full_article_def serving_def council_page_length council_soup_extract Let_def)
  moreover have "isspace (council_extracted ! 19) \<and> isspace (council_extracted ! 20)"
    by (simp add: council_extracted_def str_def isspace_def)
  ultimately show ?thesis
    by (simp add: council_extracted_length)
qed

lemma report_fragment_facts:
  "strip report_fragment = report_fragment \<and> length report_fragment = 55 \<and>
   any_in boilerplate_prefixes (lower report_fragment) \<and>
   \<not> list_ex (startswith (lower report_fragment)) boilerplate_prefixes"
proof -
  have "strip report_fragment = report_fragment"
    by (rule strip_id) (simp_all add: report_fragment_def str_def isspace_def)
  moreover have "length report_fragment = 55"
    by (simp add: report_fragment_def str_def)
  moreover have "any_in boilerplate_prefixes (lower report_fragment)"
    apply (simp add: report_fragment_def str_def)
    apply (simp only: boilerplate_prefixes_codes text_eval)
    done
  moreover have "\<not> list_ex (startswith (lower report_fragment)) boilerplate_prefixes"
    apply (simp add: report_fragment_def str_def)
    apply (simp only: boilerplate_prefixes_codes text_eval)
    done
  ultimately show ?thesis by simp
qed

lemma bridge_fragment_facts:
  "strip bridge_fragment = bridge_fragment \<and> length bridge_fragment = 54 \<and>
   \<not> any_in boilerplate_prefixes (lower bridge_fragment)"
proof -
  have "strip bridge_fragment = bridge_fragment"
    by (rule strip_id) (simp_all add: bridge_fragment_def str_def isspace_def)
  moreover have "length bridge_fragment = 54"
    by (simp add: bridge_fragment_def str_def)
  moreover have "\<not> any_in boilerplate_prefixes (lower bridge_fragment)"
    apply (simp add: bridge_fragment_def str_def)
    apply (simp only: boilerplate_prefixes_codes text_eval)
    done
  ultimately show ?thesis by simp
qed

text \<open>
  C4 at an article of two paragraphs. The first is 55 characters long and its lower-case
  form starts with none of the markers, so the filter as specified keeps it; it holds the
  word comment in its interior, and the code drops it: the test is \<open>prefix in text.lower()\<close>.
\<close>

theorem collect_texts_drops_interior_marker:
  "keep_fragment_as_specified report_fragment \<and>
   \<not> keep_fragment report_fragment \<and>
   collect_texts report_article = [bridge_fragment]"
  using report_fragment_facts bridge_fragment_facts
  by (simp add: keep_fragment_as_specified_def keep_fragment_def collect_texts_def find_all_def
        report_article_def str_def)

section \<open>Properties: the summarizer\<close>

lemma map_filter_concat:
  "map f (filter P xs) = concat (map (\<lambda>x. if P x then [f x] else []) xs)"
  by (induction xs) simp_all

lemma meaningful_kept: "meaningful n words (split_sentences text) = kept_sentences n words text"
  by (simp add: meaningful_def kept_sentences_def any_in_def list_ex_iff map_filter_concat)

lemma six_sentences_split:
  "split_sentences six_sentences =
     [str ''The council met on Monday evening.'', str ''It approved the new budget plan.'',
      str ''Roads will be repaired next spring.'', str ''Schools receive more funding too.'',
      str ''The mayor thanked all the members.'', str ''A final report is due in December.'']"
  apply (simp add: six_sentences_def str_def)
  apply (simp only: split_sentences_def text_eval append.simps cong: if_weak_cong)
  done

text \<open>
  C6. When the text is not blank and the completion call returns \<open>None\<close>,
  \<open>summarize_text\<close> returns the disclaimer followed by the first five kept sentences joined
  by spaces, the kept sentences being those longer than 20 characters without subscribe,
  share or comment; when no sentence is kept it returns the fixed message.
\<close>

theorem summarize_text_fallback:
  assumes "strip text \<noteq> []"
    and "fst (summary_chat ext key text title w) = None"
  shows "fst (summarize_text ext key text title w) =
           (let kept = kept_sentences 20 [str ''subscribe'', str ''share'', str ''comment''] text
            in if kept = [] then could_not_generate
               else ai_unavailable @ str ''. Key information from the article: '' @
                    join [32] (take 5 kept))"
proof -
  have "fst (summarize_text ext key text title w) = basic_summary text"
    using assms
    by (auto simp: summarize_text_def summary_chat_def Let_def split: prod.splits)
  then show ?thesis
    by (simp add: basic_summary_def meaningful_kept Let_def)
qed

lemmas sentence_eval =
  meaningful_def filter.simps strip_def lstrip_def rstrip_def rev.simps append.simps
  less_numeral_Suc pred_numeral_simps zero_less_Suc not_less_zero BitM.simps

lemma six_sentences_kept:
  "kept_sentences 20 [str ''subscribe'', str ''share'', str ''comment''] six_sentences =
     [str ''The council met on Monday evening.'', str ''It approved the new budget plan.'',
      str ''Roads will be repaired next spring.'', str ''Schools receive more funding too.'',
      str ''The mayor thanked all the members.'', str ''A final report is due in December.'']"
  apply (simp only: meaningful_kept [symmetric] six_sentences_split)
  apply (simp add: str_def)
  apply (simp only: sentence_eval text_eval cong: if_weak_cong)
  done

text \<open>C6 at a text of six sentences, each longer than 20 characters and free of the three
  words, with a completion service that cannot be reached: the summary is the disclaimer
  and the first five sentences.\<close>

theorem summarize_text_fallback_witness:
  "strip six_sentences \<noteq> [] \<and>
   fst (summary_chat unreachable (Some (str ''key'')) six_sentences [] []) = None \<and>
   fst (summarize_text unreachable (Some (str ''key'')) six_sentences [] []) =
     ai_unavailable @ str ''. Key information from the article: '' @ five_sentences"
proof -
  have h1: "strip six_sentences \<noteq> []"
    by (simp add: strip_id six_sentences_def str_def isspace_def)
  have h2: "fst (summary_chat unreachable (Some (str ''key'')) six_sentences [] []) = None"
    by (simp add: summary_chat_def groq_chat_def unreachable_def str_def Let_def)
  have "join [32] (take 5 (kept_sentences 20 [str ''subscribe'', str ''share'', str ''comment'']
          six_sentences)) = five_sentences"
    by (simp add: six_sentences_kept) (simp add: five_sentences_def str_def)
  with summarize_text_fallback [OF h1 h2] h1 h2 show ?thesis
    by (simp only: six_sentences_kept Let_def) simp
qed

section \<open>Properties: the route\<close>

lemma last_dropWhile: "dropWhile P xs \<noteq> [] \<Longrightarrow> last (dropWhile P xs) = last xs"
  by (induction xs) (auto split: if_splits)

lemma strip_ends:
  assumes "strip s \<noteq> []"
  shows "\<not> isspace (hd (strip s)) \<and> \<not> isspace (last (strip s))"
proof -
  let ?a = "dropWhile isspace s"
  let ?b = "dropWhile isspace (rev ?a)"
  have s: "strip s = rev ?b" by (simp add: strip_def lstrip_def rstrip_def)
  with assms have b: "?b \<noteq> []" by simp
  have a: "?a \<noteq> []"
  proof
    assume "?a = []"
    then have "rev ?a = []" by (simp only: rev.simps)
    then have "?b = []" by (simp only: dropWhile.simps)
    with b show False by (simp only: not_True_eq_False simp_thms)
  qed
  have "\<not> isspace (hd ?b)" using b by (rule hd_dropWhile)
  then have l: "\<not> isspace (last (rev ?b))" using b by (simp add: last_rev)
  have "last ?b = last (rev ?a)" using b by (rule last_dropWhile)
  also have "\<dots> = hd ?a" using a by (simp add: last_rev)
  finally have "hd (rev ?b) = hd ?a" using b by (simp add: hd_rev)
  moreover have "\<not> isspace (hd ?a)" using a by (rule hd_dropWhile)
  ultimately show ?thesis using l s by simp
qed

lemma strip_strip: "strip (strip s) = strip s"
proof (cases "strip s = []")
  case True
  have "strip [] = ([] :: pystr)"
    by (simp add: strip_def lstrip_def rstrip_def)
  with True show ?thesis by simp
next
  case False
  with strip_ends [OF False] show ?thesis by (simp add: strip_id)
qed

lemma extract_text_some:
  "extract_text c = Some t \<Longrightarrow> 200 < length t \<and> strip t = t"
  by (auto simp: extract_text_def clean_text_def Let_def strip_strip
        split: option.splits if_splits)

lemma fetch_full_article_some:
  assumes "fst (fetch_full_article ext url w) = Some t"
  shows "200 < length t \<and> strip t = t"
proof -
  from assms obtain soup where "extract_article soup = Some t"
    by (auto simp: fetch_full_article_def Let_def split: outcome.splits if_splits option.splits)
  then show ?thesis
    by (simp add: extract_article_def Let_def extract_text_some)
qed

lemma fetch_full_article_nonblank:
  "fst (fetch_full_article ext url w) = Some t \<Longrightarrow> t \<noteq> [] \<and> strip t \<noteq> []"
  using fetch_full_article_some [of ext url w t] by auto

lemma fetch_field_nonblank:
  "fst (fetch_field ext article_url w) = Some t \<Longrightarrow> t \<noteq> [] \<and> strip t \<noteq> []"
  by (cases article_url) (simp_all add: fetch_field_def fetch_full_article_nonblank)

lemma basic_summary_nonempty: "basic_summary text \<noteq> []"
  by (simp add: basic_summary_def could_not_generate_def ai_unavailable_def warning_sign_def Let_def)

lemma summarize_text_nonempty: "fst (summarize_text ext key text title w) \<noteq> []"
  by (auto simp: summarize_text_def basic_summary_nonempty str_def Let_def
        split: prod.splits option.splits)

lemma truthy_field: "truthy (get_field d k) \<Longrightarrow> d \<noteq> []"
  by (cases d) (simp_all add: get_field_def)

text \<open>The run of the route that answers with an analysis.\<close>

lemma summarize_ok:
  assumes "key \<noteq> []"
    and "truthy (get_field d (str ''url''))"
    and "has_len (get_field d (str ''text''))"
    and "fetch_field ext (get_field d (str ''url'')) w = (full, w1)"
    and "choose_text full (get_field d (str ''text'')) = JStr T"
    and "strip T \<noteq> []"
    and "\<not> (truthy (get_field d (str ''title'')) \<and> \<not> is_str (get_field d (str ''title'')))"
    and "summarize_text ext (Some key) T (str_of (get_field d (str ''title''))) w1 = (s0, w2)"
    and "analyze_sentiment ext (Some key) T w2 = ((label, score), w3)"
  shows "summarize ext (Some key) (Body (JDict d)) w =
           (Ok \<lparr>summary = (if full = None then full_article_unavailable else []) @
                          (if py_in ai_unavailable s0 then enhanced_fallback T else s0),
                sentiment = label, confidence = score,
                used_full_article = (full \<noteq> None)\<rparr>, w3)"
proof -
  have s0: "s0 \<noteq> []"
    using summarize_text_nonempty [of ext "Some key" T "str_of (get_field d (str ''title''))" w1]
      assms(8) by simp
  have blank: "strip [] = ([] :: pystr)"
    by (simp add: strip_def lstrip_def rstrip_def)
  with assms(6) have T: "T \<noteq> []" by auto
  have d: "d \<noteq> []" using assms(2) by (rule truthy_field)
  have full: "full \<noteq> Some []"
    using fetch_field_nonblank [of ext "get_field d (str ''url'')" w "[]"] assms(4) by auto
  from assms s0 T d full show ?thesis
    by (simp add: summarize_def Let_def)
qed

text \<open>What an analysis tells about the request.\<close>

lemma summarize_ok_inverse:
  assumes "fst (summarize ext key (Body (JDict d)) w) = Ok a"
  shows "\<exists>k T. key = Some k \<and> k \<noteq> [] \<and>
           truthy (get_field d (str ''url'')) \<and> has_len (get_field d (str ''text'')) \<and>
           choose_text (fst (fetch_field ext (get_field d (str ''url'')) w))
             (get_field d (str ''text'')) = JStr T \<and> strip T \<noteq> [] \<and>
           \<not> (truthy (get_field d (str ''title'')) \<and> \<not> is_str (get_field d (str ''title'')))"
proof -
  let ?chosen = "choose_text (fst (fetch_field ext (get_field d (str ''url'')) w))
      (get_field d (str ''text''))"
  from assms have all: "d \<noteq> [] \<and> has_len (get_field d (str ''text'')) \<and>
      truthy (get_field d (str ''url'')) \<and> key \<noteq> None \<and> key \<noteq> Some [] \<and>
      is_str ?chosen \<and> strip (str_of ?chosen) \<noteq> [] \<and>
      \<not> (truthy (get_field d (str ''title'')) \<and> \<not> is_str (get_field d (str ''title'')))"
    by (auto simp: summarize_def Let_def split: prod.splits if_splits)
  then obtain k where "key = Some k" "k \<noteq> []" by (cases key) auto
  moreover from all obtain T where "?chosen = JStr T" by (cases ?chosen) auto
  ultimately show ?thesis using all by auto
qed


lemma preview_request_fields:
  "get_field (preview_request preview) (str ''url'') = JStr example_url \<and>
   get_field (preview_request preview) (str ''text'') = JStr preview \<and>
   get_field (preview_request preview) (str ''title'') = JStr [] \<and>
   example_url \<noteq> []"
  by (simp add: get_field_def preview_request_def example_url_def str_def)



lemma summarize_null_text:
  "fst (summarize unreachable (Some (str ''key'')) (Body (JDict null_text_request)) [])
     = InternalError"
  by (simp add: summarize_def null_text_request_def get_field_def Let_def str_def)

section \<open>Properties: substrings of joined sentences\<close>

lemma startswith_iff: "startswith s w \<longleftrightarrow> (\<exists>b. s = w @ b)"
proof
  assume "startswith s w"
  then have "s = w @ drop (length w) s"
    by (metis append_take_drop_id startswith_def)
  then show "\<exists>b. s = w @ b" ..
next
  assume "\<exists>b. s = w @ b"
  then show "startswith s w" by (auto simp: startswith_def)
qed

lemma py_in_iff: "py_in w s \<longleftrightarrow> (\<exists>a b. s = a @ w @ b)"
proof (induction s)
  case Nil
  show ?case by auto
next
  case (Cons c cs)
  show ?case
  proof
    assume "py_in w (c # cs)"
    then consider "startswith (c # cs) w" | "py_in w cs" by auto
    then show "\<exists>a b. c # cs = a @ w @ b"
    proof cases
      case 1
      then obtain b where "c # cs = w @ b" by (auto simp: startswith_iff)
      then have "c # cs = [] @ w @ b" by simp
      then show ?thesis by blast
    next
      case 2
      with Cons obtain a b where "cs = a @ w @ b" by auto
      then have "c # cs = (c # a) @ w @ b" by simp
      then show ?thesis by blast
    qed
  next
    assume "\<exists>a b. c # cs = a @ w @ b"
    then obtain a b where eq: "c # cs = a @ w @ b" by blast
    show "py_in w (c # cs)"
    proof (cases a)
      case Nil
      with eq have "startswith (c # cs) w" by (auto simp: startswith_iff)
      then show ?thesis by simp
    next
      case (Cons x a')
      with eq have "cs = a' @ w @ b" by simp
      with Cons.IH have "py_in w cs" by blast
      then show ?thesis by simp
    qed
  qed
qed

lemma py_in_skip:
  assumes "w \<noteq> []" and "hd w \<notin> set x" and "py_in w (x @ y)"
  shows "py_in w y"
proof -
  from assms(3) obtain a b where "x @ y = a @ w @ b" by (auto simp: py_in_iff)
  then consider us where "x = a @ us" "us @ y = w @ b" | us where "x @ us = a" "y = us @ w @ b"
    by (auto simp: append_eq_append_conv2)
  then show ?thesis
  proof cases
    case 1
    show ?thesis
    proof (cases us)
      case Nil
      with 1 have "y = [] @ w @ b" by simp
      then show ?thesis unfolding py_in_iff by blast
    next
      case (Cons u us')
      with 1(2) assms(1) have "u = hd w" by (cases w) auto
      with Cons 1(1) assms(2) show ?thesis by simp
    qed
  next
    case 2
    then show ?thesis unfolding py_in_iff by blast
  qed
qed

lemma py_in_join_step:
  assumes "w \<noteq> []" and "hd w \<noteq> sep" and "x \<noteq> []" and "last x \<notin> set w"
    and "py_in w (x @ sep # rest)"
  shows "py_in w x \<or> py_in w rest"
proof -
  from assms(5) obtain a b where "x @ sep # rest = a @ w @ b" by (auto simp: py_in_iff)
  then consider us where "x = a @ us" "us @ sep # rest = w @ b"
    | us where "x @ us = a" "sep # rest = us @ w @ b"
    by (auto simp: append_eq_append_conv2)
  then show ?thesis
  proof cases
    case 1
    from 1(2) consider vs where "us = w @ vs" | vs where "us @ vs = w" "sep # rest = vs @ b"
      by (auto simp: append_eq_append_conv2)
    then show ?thesis
    proof cases
      case 1
      with \<open>x = a @ us\<close> have "x = a @ w @ vs" by simp
      then show ?thesis unfolding py_in_iff by blast
    next
      case 2
      show ?thesis
      proof (cases "us = []")
        case True
        with 2 assms(1) have "hd w = sep" by (cases w) auto
        with assms(2) show ?thesis by simp
      next
        case False
        with \<open>x = a @ us\<close> have "last x = last us" by simp
        with False 2(1) have "last x \<in> set w" by (metis last_in_set set_append UnI1)
        with assms(4) show ?thesis by simp
      qed
    qed
  next
    case 2
    show ?thesis
    proof (cases us)
      case Nil
      with 2(2) assms(1) have "hd w = sep" by (cases w) auto
      with assms(2) show ?thesis by simp
    next
      case (Cons u us')
      with 2(2) have "rest = us' @ w @ b" by simp
      then show ?thesis unfolding py_in_iff by blast
    qed
  qed
qed

lemma py_in_join:
  assumes "w \<noteq> []" and "hd w \<noteq> sep"
  shows "(\<forall>x \<in> set (butlast xs). x \<noteq> [] \<and> last x \<notin> set w) \<Longrightarrow> py_in w (join [sep] xs)
           \<Longrightarrow> \<exists>x \<in> set xs. py_in w x"
proof (induction "[sep]" xs rule: join.induct)
  case 1
  with assms(1) show ?case by simp
next
  case (2 x)
  then show ?case by simp
next
  case (3 x y ys)
  from 3(2) have x: "x \<noteq> []" "last x \<notin> set w" by simp_all
  from 3(3) have "py_in w (x @ sep # join [sep] (y # ys))" by simp
  from py_in_join_step [OF assms x this] show ?case
  proof
    assume "py_in w x"
    then show ?thesis by simp
  next
    assume "py_in w (join [sep] (y # ys))"
    moreover from 3(2) have "\<forall>x \<in> set (butlast (y # ys)). x \<noteq> [] \<and> last x \<notin> set w" by simp
    ultimately have "\<exists>x \<in> set (y # ys). py_in w x" by (rule 3(1) [rotated])
    then show ?thesis by auto
  qed
qed

lemma split_after_nonempty: "split_after t cur s \<noteq> []"
  by (induction t cur s rule: split_after.induct) simp_all

lemma split_after_butlast:
  "(t \<longrightarrow> cur \<noteq> [] \<and> terminal (last cur)) \<Longrightarrow>
   \<forall>p \<in> set (butlast (split_after t cur s)). p \<noteq> [] \<and> terminal (last p)"
proof (induction t cur s rule: split_after.induct)
  case (1 t cur)
  show ?case by simp
next
  case (2 t cur c cs)
  show ?case
  proof (cases "t \<and> isspace c")
    case True
    with 2(1) have "\<forall>p \<in> set (butlast (split_after False [] (dropWhile isspace cs))).
        p \<noteq> [] \<and> terminal (last p)"
      by simp
    with True 2(3) show ?thesis
      by (simp add: split_after_nonempty)
  next
    case False
    have "(c = 46 \<or> c = 33 \<or> c = 63) \<longrightarrow> cur @ [c] \<noteq> [] \<and> terminal (last (cur @ [c]))"
      by (simp add: terminal_def)
    with False 2(2) have "\<forall>p \<in> set (butlast (split_after (c = 46 \<or> c = 33 \<or> c = 63) (cur @ [c]) cs)).
        p \<noteq> [] \<and> terminal (last p)"
      by blast
    with False show ?thesis by auto
  qed
qed

lemma split_sentences_butlast:
  "p \<in> set (butlast (split_sentences text)) \<Longrightarrow> p \<noteq> [] \<and> terminal (last p)"
  using split_after_butlast [of False "[]" "text"] by (simp add: split_sentences_def)

lemma terminal_not_space: "terminal c \<Longrightarrow> \<not> isspace c"
  by (auto simp: terminal_def isspace_def)

lemma strip_keeps_last:
  assumes "p \<noteq> []" and "\<not> isspace (last p)"
  shows "strip p \<noteq> [] \<and> last (strip p) = last p"
proof -
  let ?a = "dropWhile isspace p"
  have a: "?a \<noteq> []"
  proof
    assume "?a = []"
    then have "\<forall>x \<in> set p. isspace x" by (simp add: dropWhile_eq_Nil_conv)
    with assms show False by simp
  qed
  then have la: "last ?a = last p" by (rule last_dropWhile)
  with a assms(2) have "\<not> isspace (hd (rev ?a))" by (simp add: hd_rev)
  with a have "dropWhile isspace (rev ?a) = rev ?a" by (cases "rev ?a") simp_all
  then have "strip p = ?a" by (simp add: strip_def lstrip_def rstrip_def)
  with a la show ?thesis by simp
qed

lemma butlast_filter: "x \<in> set (butlast (filter P xs)) \<Longrightarrow> x \<in> set (butlast xs)"
proof (induction xs rule: rev_induct)
  case Nil
  then show ?case by simp
next
  case (snoc z ys)
  then show ?case by (auto split: if_splits dest: in_set_butlastD)
qed

lemma butlast_take: "x \<in> set (butlast (take n xs)) \<Longrightarrow> x \<in> set (butlast xs)"
proof (cases "n < length xs")
  case True
  assume "x \<in> set (butlast (take n xs))"
  with True have "x \<in> set (take n (butlast xs))"
    by (auto simp: take_butlast dest: in_set_butlastD)
  then show ?thesis by (rule in_set_takeD)
next
  case False
  assume "x \<in> set (butlast (take n xs))"
  with False show ?thesis by simp
qed

lemma kept_sentences_butlast:
  assumes "x \<in> set (butlast (take k (kept_sentences n words text)))"
  shows "x \<noteq> [] \<and> terminal (last x)"
proof -
  let ?P = "\<lambda>s. length (strip s) > n \<and> \<not> any_in words (lower s)"
  from assms have "x \<in> set (butlast (map strip (filter ?P (split_sentences text))))"
    by (auto simp: meaningful_kept [symmetric] meaningful_def dest: butlast_take)
  then obtain p where p: "p \<in> set (butlast (filter ?P (split_sentences text)))" and x: "x = strip p"
    by (auto simp: map_butlast [symmetric])
  from p have "p \<in> set (butlast (split_sentences text))" by (rule butlast_filter)
  then have "p \<noteq> [] \<and> terminal (last p)" by (rule split_sentences_butlast)
  with x strip_keeps_last [of p] terminal_not_space [of "last p"] show ?thesis by simp
qed

lemma ai_unavailable_facts:
  "ai_unavailable \<noteq> [] \<and> hd ai_unavailable = 9888 \<and> (\<forall>c. terminal c \<longrightarrow> c \<notin> set ai_unavailable)"
  by (auto simp: ai_unavailable_def warning_sign_def str_def terminal_def)

lemma disclaimer_in_joined:
  assumes "py_in ai_unavailable (join [32] (take k (kept_sentences n words text)))"
  shows "\<exists>s \<in> set (take k (kept_sentences n words text)). py_in ai_unavailable s"
proof (rule py_in_join [where sep = 32])
  show "ai_unavailable \<noteq> []" using ai_unavailable_facts by simp
  show "hd ai_unavailable \<noteq> 32" using ai_unavailable_facts by simp
  show "\<forall>x \<in> set (butlast (take k (kept_sentences n words text))).
      x \<noteq> [] \<and> last x \<notin> set ai_unavailable"
    using kept_sentences_butlast ai_unavailable_facts by blast
  show "py_in ai_unavailable (join [32] (take k (kept_sentences n words text)))" by fact
qed

lemma disclaimer_after_prefix:
  "py_in ai_unavailable (full_article_unavailable @ body) \<Longrightarrow> py_in ai_unavailable body"
proof -
  let ?note = "str '' Note: Full article content was unavailable. This summary is based on the preview text only.'' @ [10, 10]"
  assume "py_in ai_unavailable (full_article_unavailable @ body)"
  then have "py_in ai_unavailable (9888 # (65039 # ?note) @ body)"
    by (simp only: full_article_unavailable_def warning_sign_def append.simps append_assoc)
  moreover have "\<not> startswith (9888 # (65039 # ?note) @ body) ai_unavailable"
    by (simp add: ai_unavailable_def warning_sign_def str_def startswith_Cons_Cons)
  ultimately have "py_in ai_unavailable ((65039 # ?note) @ body)"
    by (simp only: py_in.simps simp_thms)
  moreover have "hd ai_unavailable \<notin> set (65039 # ?note)"
    by (simp add: ai_unavailable_facts) (simp add: str_def)
  ultimately show ?thesis
    using ai_unavailable_facts by (blast intro: py_in_skip)
qed

lemma disclaimer_after_key_points:
  "py_in ai_unavailable (str ''Key points from the article: '' @ body) \<Longrightarrow> py_in ai_unavailable body"
proof (rule py_in_skip)
  show "ai_unavailable \<noteq> []" using ai_unavailable_facts by simp
  show "hd ai_unavailable \<notin> set (str ''Key points from the article: '')"
    by (simp add: ai_unavailable_facts) (simp add: str_def)
qed

lemma disclaimer_not_in_comprehensive: "\<not> py_in ai_unavailable comprehensive_unavailable"
proof
  assume "py_in ai_unavailable comprehensive_unavailable"
  then have "py_in ai_unavailable (comprehensive_unavailable @ [])" by simp
  moreover have "hd ai_unavailable \<notin> set comprehensive_unavailable"
    by (simp add: ai_unavailable_facts) (simp add: comprehensive_unavailable_def str_def)
  ultimately have "py_in ai_unavailable []"
    using ai_unavailable_facts by (blast intro: py_in_skip)
  with ai_unavailable_facts show False by simp
qed

section \<open>Properties: the summary the route sends\<close>

lemma enhanced_fallback_kept:
  "enhanced_fallback text =
     (if 3 \<le> length (kept_sentences 30
            [str ''subscribe'', str ''share'', str ''comment'', str ''read more''] text)
      then str ''Key points from the article: '' @
           join [32] (take 5 (kept_sentences 30
             [str ''subscribe'', str ''share'', str ''comment'', str ''read more''] text))
      else comprehensive_unavailable)"
  by (auto simp: enhanced_fallback_def meaningful_kept Let_def)

text \<open>
  C9, as the code has it. Whenever \<open>summarize_text\<close> returns a text that holds the
  disclaimer, the route replaces it: by \<open>Key points from the article:\<close> and the first five
  kept sentences when at least three sentences are longer than 30 characters and free of
  subscribe, share, comment and read more, by the fixed message otherwise. The summary
  sent to the caller holds the words of the disclaimer only when one of the sentences
  quoted by that second fallback holds them.
\<close>

theorem summarize_replaces_disclaimer:
  assumes "fst (summarize ext key (Body (JDict d)) w) = Ok a"
    and "fetch_field ext (get_field d (str ''url'')) w = (full, w1)"
    and "T = str_of (choose_text full (get_field d (str ''text'')))"
    and "s0 = fst (summarize_text ext key T (str_of (get_field d (str ''title''))) w1)"
    and "kept = kept_sentences 30
           [str ''subscribe'', str ''share'', str ''comment'', str ''read more''] T"
  shows "summary a =
           (if full = None then full_article_unavailable else []) @
           (if py_in ai_unavailable s0
            then (if 3 \<le> length kept
                  then str ''Key points from the article: '' @ join [32] (take 5 kept)
                  else comprehensive_unavailable)
            else s0) \<and>
         (py_in ai_unavailable (summary a) \<longrightarrow>
            py_in ai_unavailable s0 \<and> 3 \<le> length kept \<and>
            (\<exists>s \<in> set (take 5 kept). py_in ai_unavailable s))"
proof -
  from summarize_ok_inverse [OF assms(1)] assms(2,3)
  obtain k where key: "key = Some k" "k \<noteq> []"
    and url: "truthy (get_field d (str ''url''))"
    and len: "has_len (get_field d (str ''text''))"
    and chosen: "choose_text full (get_field d (str ''text'')) = JStr T"
    and T: "strip T \<noteq> []"
    and title: "\<not> (truthy (get_field d (str ''title'')) \<and> \<not> is_str (get_field d (str ''title'')))"
    by auto
  obtain w2 where st:
    "summarize_text ext (Some k) T (str_of (get_field d (str ''title''))) w1 = (s0, w2)"
    using assms(4) key
    by (cases "summarize_text ext (Some k) T (str_of (get_field d (str ''title''))) w1") simp
  obtain label score w3 where an: "analyze_sentiment ext (Some k) T w2 = ((label, score), w3)"
    by (cases "analyze_sentiment ext (Some k) T w2") auto
  from summarize_ok [OF key(2) url len assms(2) chosen T title st an] assms(1) key
  have sum: "summary a =
      (if full = None then full_article_unavailable else []) @
      (if py_in ai_unavailable s0 then enhanced_fallback T else s0)"
    by auto
  have first: "summary a =
      (if full = None then full_article_unavailable else []) @
      (if py_in ai_unavailable s0
       then (if 3 \<le> length kept
             then str ''Key points from the article: '' @ join [32] (take 5 kept)
             else comprehensive_unavailable)
       else s0)"
    using sum assms(5) by (simp add: enhanced_fallback_kept)
  have second: "py_in ai_unavailable s0 \<and> 3 \<le> length kept \<and>
      (\<exists>s \<in> set (take 5 kept). py_in ai_unavailable s)"
    if "py_in ai_unavailable (summary a)"
  proof -
    define body where "body =
      (if py_in ai_unavailable s0
       then (if 3 \<le> length kept
             then str ''Key points from the article: '' @ join [32] (take 5 kept)
             else comprehensive_unavailable)
       else s0)"
    from first have "summary a = (if full = None then full_article_unavailable else []) @ body"
      by (simp only: body_def)
    with that have body: "py_in ai_unavailable body"
      by (cases "full = None") (simp_all add: disclaimer_after_prefix)
    have s0: "py_in ai_unavailable s0"
    proof (rule ccontr)
      assume "\<not> py_in ai_unavailable s0"
      then have "body = s0" by (simp add: body_def)
      with body \<open>\<not> py_in ai_unavailable s0\<close> show False by simp
    qed
    have three: "3 \<le> length kept"
    proof (rule ccontr)
      assume "\<not> 3 \<le> length kept"
      with s0 have "body = comprehensive_unavailable" by (simp add: body_def)
      with body disclaimer_not_in_comprehensive show False by simp
    qed
    from s0 three have "body = str ''Key points from the article: '' @ join [32] (take 5 kept)"
      by (simp add: body_def)
    with body have "py_in ai_unavailable (join [32] (take 5 kept))"
      by (simp add: disclaimer_after_key_points)
    then have "\<exists>s \<in> set (take 5 kept). py_in ai_unavailable s"
      unfolding assms(5) by (rule disclaimer_in_joined)
    with s0 three show ?thesis by simp
  qed
  from first second show ?thesis by blast
qed

lemma py_in_prefix: "py_in w (w @ b)"
proof -
  have "w @ b = [] @ w @ b" by simp
  then show ?thesis unfolding py_in_iff by blast
qed

lemma groq_chat_unreachable: "fst (groq_chat unreachable key ms m t k w) = None"
  by (simp add: groq_chat_def unreachable_def Let_def split: option.splits)

lemma summarize_text_unreachable:
  "strip text \<noteq> [] \<Longrightarrow> fst (summarize_text unreachable key text title w) = basic_summary text"
  using groq_chat_unreachable [of key "summary_messages (take 8000 text) title"
      "str ''llama-3.1-70b-versatile''" "2/10" 1024 w]
  by (auto simp: summarize_text_def Let_def split: prod.splits)

lemma analyze_sentiment_unreachable:
  "fst (analyze_sentiment unreachable key text w) = (str ''neutral'', Finite (1/2))"
  using groq_chat_unreachable [of key "sentiment_messages (take 4000 text)"
      "str ''llama-3.1-70b-versatile''" "1/10" 2048 w]
  by (auto simp: analyze_sentiment_def neutral_default_def Let_def split: prod.splits)

lemma fetch_full_article_unreachable:
  "fetch_full_article unreachable url w = (None, w @ [Get url])"
  by (simp add: fetch_full_article_def unreachable_def Let_def)

text \<open>The route on a preview text when nothing can be reached.\<close>

lemma fetch_field_unreachable:
  "fetch_field unreachable (JStr u) w = (None, w @ [Get u])"
  by (simp add: fetch_field_def fetch_full_article_unreachable)

lemma summarize_unreachable:
  assumes "strip preview \<noteq> []"
  shows "fst (summarize unreachable (Some (str ''key'')) (Body (JDict (preview_request preview))) []) =
           Ok \<lparr>summary = full_article_unavailable @
                  (if py_in ai_unavailable (basic_summary preview)
                   then enhanced_fallback preview else basic_summary preview),
                sentiment = str ''neutral'', confidence = Finite (1/2),
                used_full_article = False\<rparr>"
proof -
  let ?d = "preview_request preview"
  let ?w1 = "[Get example_url]"
  let ?st = "summarize_text unreachable (Some (str ''key'')) preview
      (str_of (get_field ?d (str ''title''))) ?w1"
  let ?an = "analyze_sentiment unreachable (Some (str ''key'')) preview (snd ?st)"
  note fields = preview_request_fields [of preview]
  have key: "str ''key'' \<noteq> []" by (simp add: str_def)
  have url: "truthy (get_field ?d (str ''url''))" using fields by simp
  have len: "has_len (get_field ?d (str ''text''))" using fields by simp
  have fetch: "fetch_field unreachable (get_field ?d (str ''url'')) [] = (None, ?w1)"
    using fields by (simp add: fetch_field_unreachable)
  have T: "choose_text None (get_field ?d (str ''text'')) = JStr preview"
    using fields by (simp add: choose_text_def)
  have title: "\<not> (truthy (get_field ?d (str ''title'')) \<and> \<not> is_str (get_field ?d (str ''title'')))"
    using fields by simp
  have st: "?st = (basic_summary preview, snd ?st)"
    using summarize_text_unreachable [OF assms, of "Some (str ''key'')"
        "str_of (get_field ?d (str ''title''))" ?w1]
    by (simp add: prod_eq_iff)
  have an: "?an = ((str ''neutral'', Finite (1/2)), snd ?an)"
    using analyze_sentiment_unreachable [of "Some (str ''key'')" preview "snd ?st"]
    by (simp add: prod_eq_iff)
  from summarize_ok [OF key url len fetch T assms title st an] show ?thesis by simp
qed

lemma six_sentences_kept30:
  "kept_sentences 30 [str ''subscribe'', str ''share'', str ''comment'', str ''read more'']
     six_sentences =
     [str ''The council met on Monday evening.'', str ''It approved the new budget plan.'',
      str ''Roads will be repaired next spring.'', str ''Schools receive more funding too.'',
      str ''The mayor thanked all the members.'', str ''A final report is due in December.'']"
  apply (simp only: meaningful_kept [symmetric] six_sentences_split)
  apply (simp add: str_def)
  apply (simp only: sentence_eval text_eval cong: if_weak_cong)
  done

lemma six_sentences_strip: "strip six_sentences \<noteq> []"
  by (simp add: strip_id six_sentences_def str_def isspace_def)

lemma six_sentences_summarize:
  "fst (summarize unreachable (Some (str ''key'')) (Body (JDict (preview_request six_sentences))) [])
     = Ok six_sentences_analysis"
proof -
  have "basic_summary six_sentences =
      ai_unavailable @ str ''. Key information from the article: '' @ five_sentences"
    by (simp add: basic_summary_def meaningful_kept six_sentences_kept Let_def)
       (simp add: five_sentences_def str_def)
  then have "py_in ai_unavailable (basic_summary six_sentences)"
    by (simp only: py_in_prefix)
  moreover have "enhanced_fallback six_sentences =
      str ''Key points from the article: '' @ five_sentences"
    by (simp add: enhanced_fallback_kept six_sentences_kept30)
       (simp add: five_sentences_def str_def)
  ultimately show ?thesis
    using summarize_unreachable [OF six_sentences_strip]
    by (simp add: six_sentences_analysis_def)
qed

text \<open>C9 at a preview of six sentences when nothing can be reached: \<open>summarize_text\<close>
  returns its disclaimer with five sentences, and the summary sent is the note on the
  missing article followed by the key points.\<close>

theorem summarize_replaces_disclaimer_witness:
  "fst (summarize unreachable (Some (str ''key'')) (Body (JDict (preview_request six_sentences))) [])
     = Ok six_sentences_analysis \<and>
   fetch_field unreachable (get_field (preview_request six_sentences) (str ''url'')) []
     = (None, [Get example_url]) \<and>
   str_of (choose_text None (get_field (preview_request six_sentences) (str ''text'')))
     = six_sentences \<and>
   py_in ai_unavailable
     (fst (summarize_text unreachable (Some (str ''key'')) six_sentences
             (str_of (get_field (preview_request six_sentences) (str ''title'')))
             [Get example_url])) \<and>
   summary six_sentences_analysis =
     full_article_unavailable @ str ''Key points from the article: '' @ five_sentences \<and>
   \<not> py_in ai_unavailable (summary six_sentences_analysis)"
proof -
  let ?d = "preview_request six_sentences"
  let ?w1 = "[Get example_url]"
  let ?t = "str_of (get_field ?d (str ''title''))"
  let ?s0 = "fst (summarize_text unreachable (Some (str ''key'')) six_sentences ?t ?w1)"
  let ?kept = "kept_sentences 30
      [str ''subscribe'', str ''share'', str ''comment'', str ''read more''] six_sentences"
  note fields = preview_request_fields [of six_sentences]
  have h1: "fst (summarize unreachable (Some (str ''key'')) (Body (JDict ?d)) []) = Ok six_sentences_analysis"
    by (rule six_sentences_summarize)
  have h2: "fetch_field unreachable (get_field ?d (str ''url'')) [] = (None, ?w1)"
    using fields by (simp add: fetch_field_unreachable)
  have h3: "six_sentences = str_of (choose_text None (get_field ?d (str ''text'')))"
    using fields by (simp add: choose_text_def)
  have s0: "py_in ai_unavailable ?s0"
    by (simp add: summarize_text_unreachable six_sentences_strip basic_summary_def
          meaningful_kept six_sentences_kept Let_def py_in_prefix)
  have none: "\<not> (\<exists>s \<in> set (take 5 ?kept). py_in ai_unavailable s)"
    apply (simp only: six_sentences_kept30)
    apply (simp add: str_def ai_unavailable_def warning_sign_def del: py_in.simps)
    apply (simp only: text_eval)
    done
  from summarize_replaces_disclaimer [OF h1 h2 h3 refl refl] h1 h2 h3 [symmetric] s0 none
  show ?thesis
    by (auto simp: six_sentences_analysis_def)
qed

lemma quoting_text_split:
  "split_sentences quoting_text =
     [str ''Engineers inspected the bridge on Friday morning.'',
      str ''The page showed '' @ ai_unavailable @ str '' for an hour.'',
      str ''Traffic returned to normal by the afternoon.'']"
  apply (simp add: quoting_text_def ai_unavailable_def warning_sign_def str_def)
  apply (simp only: split_sentences_def text_eval append.simps cong: if_weak_cong)
  done

lemma quoting_text_kept20:
  "kept_sentences 20 [str ''subscribe'', str ''share'', str ''comment''] quoting_text \<noteq> []"
  apply (simp only: meaningful_kept [symmetric] quoting_text_split)
  apply (simp add: ai_unavailable_def warning_sign_def str_def)
  apply (simp only: sentence_eval text_eval cong: if_weak_cong)
  done

lemma quoting_text_kept30:
  "kept_sentences 30 [str ''subscribe'', str ''share'', str ''comment'', str ''read more'']
     quoting_text =
     [str ''Engineers inspected the bridge on Friday morning.'',
      str ''The page showed '' @ ai_unavailable @ str '' for an hour.'',
      str ''Traffic returned to normal by the afternoon.'']"
  apply (simp only: meaningful_kept [symmetric] quoting_text_split)
  apply (simp add: ai_unavailable_def warning_sign_def str_def)
  apply (simp only: sentence_eval text_eval cong: if_weak_cong)
  done

text \<open>
  C9 as stated fails. The page cannot be reached, the completion service cannot be
  reached and the preview text has three sentences, of which the second quotes the words
  of the disclaimer. The route replaces the summary of \<open>summarize_text\<close> by its key
  points, which quote the three sentences: the summary sent holds the disclaimer.
\<close>

theorem summarize_disclaimer_counterexample:
  "fst (summarize unreachable (Some (str ''key'')) (Body (JDict (preview_request quoting_text))) [])
     = Ok quoting_analysis \<and>
   py_in ai_unavailable (summary quoting_analysis)"
proof -
  have strip: "strip quoting_text \<noteq> []"
    by (simp add: strip_id quoting_text_def str_def isspace_def)
  have "py_in ai_unavailable (basic_summary quoting_text)"
    using quoting_text_kept20
    by (simp add: basic_summary_def meaningful_kept Let_def py_in_prefix)
  moreover have "enhanced_fallback quoting_text =
      str ''Key points from the article: '' @ quoting_text"
    by (simp add: enhanced_fallback_kept quoting_text_kept30) (simp add: quoting_text_def str_def)
  ultimately have "fst (summarize unreachable (Some (str ''key''))
      (Body (JDict (preview_request quoting_text))) []) = Ok quoting_analysis"
    using summarize_unreachable [OF strip]
    by (simp add: quoting_analysis_def quoting_summary_def)
  moreover have "quoting_summary =
      (full_article_unavailable @ str ''Key points from the article: '' @
         str ''Engineers inspected the bridge on Friday morning. The page showed '') @
      ai_unavailable @ str '' for an hour. Traffic returned to normal by the afternoon.''"
    by (simp add: quoting_summary_def quoting_text_def str_def)
  then have "py_in ai_unavailable quoting_summary"
    unfolding py_in_iff by blast
  ultimately show ?thesis
    by (simp add: quoting_analysis_def)
qed

end
